theory Spec2Isabelle
  imports Main
begin

section \<open>Data model of the group-call controller\<close>

text \<open>
  Object ids, socket ids and channel names are strings. Dates are milliseconds since the
  epoch, as JavaScript's \<open>Date\<close> holds them; an absent date (\<open>undefined\<close>) is \<open>None\<close>.
\<close>

type_synonym oid = string

datatype participant_status = Invited | Joined | Declined | Left | Missed

datatype call_status = Ringing | Active | Ended

datatype call_type = Audio | Video

record room =
  room_id :: oid
  name :: string
  participants :: "oid list"

record participant =
  userId :: oid
  status :: participant_status
  joinedAt :: "int option"
  leftAt :: "int option"
  notificationSent :: bool
  notificationDelivered :: bool

record group_call =
  call_id :: oid
  roomId :: oid
  callRoomId :: string
  initiator :: oid
  participants :: "participant list"
  callType :: call_type
  status :: call_status
  activeParticipants :: "oid list"
  startedAt :: int
  endedAt :: "int option"
  duration :: "int option"
  createdAt :: int

text \<open>A connected Socket.IO socket: its id, the user it authenticated as, the rooms it is in.\<close>

record socket =
  socket_id :: string
  socket_user :: "oid option"
  socket_rooms :: "string list"

text \<open>
  The events the controller emits: \<open>group_incoming_call\<close> to one socket,
  \<open>participantJoined\<close>, \<open>participantLeft\<close> and \<open>group_call_ended\<close> to the call's channel.
\<close>

datatype event =
    GroupIncomingCall string oid
  | ParticipantJoined string oid oid "oid list"
  | ParticipantLeft string oid oid "oid list" bool
  | GroupCallEnded string oid string

text \<open>
  An entry of \<open>_noParticipantTimers\<close>. Every \<open>setTimeout\<close> of the controller is stored
  in the map under the call id, every \<open>clearTimeout\<close> is followed by \<open>delete\<close>, and the
  fired handler deletes its entry: the pending timeouts are the entries of the map.
\<close>

record timer =
  handle :: nat
  delay_ms :: nat

record system =
  calls :: "group_call list"
  rooms :: "room list"
  timers :: "oid \<rightharpoonup> timer"
  nextHandle :: nat
  emitted :: "event list"
  sockets :: "socket list"
  io :: bool

datatype http_error = BadRequest | NotFound | Forbidden | InternalError

datatype initiate_ok = ExistingCall group_call | CreatedCall group_call

section \<open>The store\<close>

definition findById :: "group_call list \<Rightarrow> oid \<Rightarrow> group_call option" where
  "findById cs cid = find (\<lambda>c. call_id c = cid) cs"

definition roomById :: "room list \<Rightarrow> oid \<Rightarrow> room option" where
  "roomById rs rid = find (\<lambda>r. room_id r = rid) rs"

text \<open>\<open>doc.save()\<close>: a stored document is replaced, a new one is inserted at the end.\<close>

definition save :: "group_call \<Rightarrow> group_call list \<Rightarrow> group_call list" where
  "save gc cs =
     (if list_ex (\<lambda>c. call_id c = call_id gc) cs
      then map (\<lambda>c. if call_id c = call_id gc then gc else c) cs
      else cs @ [gc])"

text \<open>\<open>Array.prototype.find\<close> followed by assignments to the element found.\<close>

fun update_first :: "('a \<Rightarrow> bool) \<Rightarrow> ('a \<Rightarrow> 'a) \<Rightarrow> 'a list \<Rightarrow> 'a list" where
  "update_first P f [] = []"
| "update_first P f (x # xs) = (if P x then f x # xs else x # update_first P f xs)"

section \<open>getPending\<close>

text \<open>
  The query is \<open>{'participants.userId': userId, 'participants.status': 'invited',
  status: 'ringing'}\<close>. Each dotted condition on the array field holds when some element
  of the array satisfies it; the two conditions are not tied to one element (the query
  has no \<open>$elemMatch\<close>). The result is sorted by \<open>createdAt\<close>, descending.
\<close>

definition pending_query :: "oid \<Rightarrow> group_call \<Rightarrow> bool" where
  "pending_query user c \<longleftrightarrow>
     list_ex (\<lambda>p. userId p = user) (participants c)
     \<and> list_ex (\<lambda>p. participant.status p = Invited) (participants c)
     \<and> status c = Ringing"

definition getPending :: "oid \<Rightarrow> system \<Rightarrow> group_call list" where
  "getPending user s = sort_key (\<lambda>c. - createdAt c) (filter (pending_query user) (calls s))"

section \<open>The end-of-call transition\<close>

text \<open>The \<open>forEach\<close> body of lines 483-489 and 519-522.\<close>

definition finalize_participant :: "int \<Rightarrow> participant \<Rightarrow> participant" where
  "finalize_participant ended p =
     (if participant.status p = Invited then p\<lparr>participant.status := Missed\<rparr>
      else if participant.status p = Joined \<and> leftAt p = None then p\<lparr>leftAt := Some ended\<rparr>
      else p)"

text \<open>Lines 478-489 of \<open>leave\<close> and 516-522 of the timer handler, which are the same code.\<close>

definition end_transition :: "int \<Rightarrow> group_call \<Rightarrow> group_call" where
  "end_transition now gc =
     gc\<lparr>status := Ended,
        endedAt := Some now,
        duration := Some ((now - startedAt gc) div 1000),
        participants := map (finalize_participant now) (participants gc)\<rparr>"

definition clearTimer :: "oid \<Rightarrow> system \<Rightarrow> system" where
  "clearTimer cid s = s\<lparr>timers := (timers s)(cid := None)\<rparr>"

text \<open>
  Modelled from the spec: \<open>GroupCall.endCall\<close>, a method of lib/models/GroupCall, which
  is not among the sources. Section 4.3: set status to ended, endedAt to now, compute the
  duration, finalize the participant statuses as in step 3 of leave, and cancel any
  outstanding timer of the session. The caller persists the document.
\<close>

definition endCall :: "int \<Rightarrow> group_call \<Rightarrow> system \<Rightarrow> group_call \<times> system" where
  "endCall now gc s = (end_transition now gc, clearTimer (call_id gc) s)"

section \<open>initiate\<close>

text \<open>
  Lines 145-229: every socket of a room member other than the initiator gets one
  \<open>group_incoming_call\<close>; the sockets searched are those in the chat room, or every
  connected socket when the chat room has none.
\<close>

definition allSockets :: "oid \<Rightarrow> system \<Rightarrow> socket list" where
  "allSockets rid s =
     (let socketsInRoom = filter (\<lambda>k. rid \<in> set (socket_rooms k)) (sockets s)
      in if length socketsInRoom > 0 then socketsInRoom else sockets s)"

definition participantSockets :: "oid \<Rightarrow> oid \<Rightarrow> oid \<Rightarrow> system \<Rightarrow> socket list" where
  "participantSockets rid user pid s =
     (if pid = user then [] else filter (\<lambda>k. socket_user k = Some pid) (allSockets rid s))"

definition notify_invite :: "room \<Rightarrow> oid \<Rightarrow> group_call \<Rightarrow> system \<Rightarrow> group_call \<times> system" where
  "notify_invite rm user gc s =
     (if io s then
        (let rid = roomId gc;
             sent = concat (map (\<lambda>pid. map (\<lambda>k. GroupIncomingCall (socket_id k) (call_id gc))
                                            (participantSockets rid user pid s))
                                (room.participants rm));
             notified = filter (\<lambda>pid. participantSockets rid user pid s \<noteq> []) (room.participants rm);
             gc' = gc\<lparr>participants :=
                        map (\<lambda>p. if userId p \<in> set notified then p\<lparr>notificationSent := True\<rparr> else p)
                            (participants gc)\<rparr>;
             s' = s\<lparr>emitted := emitted s @ sent\<rparr>
         in (gc', if length sent > 0 then s'\<lparr>calls := save gc' (calls s')\<rparr> else s'))
      else (gc, s))"

text \<open>
  Modelled from the spec: the defaults of the schema in lib/models/GroupCall, which is
  not among the sources. The controller does not set \<open>startedAt\<close>, \<open>endedAt\<close>,
  \<open>duration\<close> or \<open>createdAt\<close>; a new session has \<open>startedAt = now\<close> (section 4.1,
  step 4), no \<open>endedAt\<close> and no \<open>duration\<close>, and is created now. The other fields are
  those of lines 116-136; the document's \<open>_id\<close> and the UUID come from the environment.
\<close>

definition new_call ::
  "oid \<Rightarrow> string \<Rightarrow> room \<Rightarrow> oid \<Rightarrow> call_type \<Rightarrow> int \<Rightarrow> group_call" where
  "new_call newId uuid rm user ct now =
     \<lparr>call_id = newId,
      roomId = room_id rm,
      callRoomId = ''group-call-'' @ uuid,
      initiator = user,
      participants =
        map (\<lambda>pid. \<lparr>userId = pid,
                     participant.status = (if pid = user then Joined else Invited),
                     joinedAt = (if pid = user then Some now else None),
                     leftAt = None,
                     notificationSent = False,
                     notificationDelivered = False\<rparr>)
            (room.participants rm),
      callType = ct,
      status = Ringing,
      activeParticipants = [user],
      startedAt = now,
      endedAt = None,
      duration = None,
      createdAt = now\<rparr>"

definition isAbandoned :: "int \<Rightarrow> group_call \<Rightarrow> bool" where
  "isAbandoned now existingCall \<longleftrightarrow>
     (let callAge = now - startedAt existingCall
      in length (activeParticipants existingCall) = 0
         \<or> (status existingCall = Ringing \<and> callAge > 5 * 60 * 1000))"

definition findLive :: "group_call list \<Rightarrow> oid \<Rightarrow> group_call option" where
  "findLive cs rid = find (\<lambda>c. roomId c = rid \<and> status c \<in> {Ringing, Active}) cs"

text \<open>
  Lines 138-234: the new document is inserted (an \<open>_id\<close> already in the collection is a
  duplicate-key error, caught at line 235) and the invitations are sent.
\<close>

definition create_call ::
  "oid \<Rightarrow> string \<Rightarrow> room \<Rightarrow> oid \<Rightarrow> call_type \<Rightarrow> int \<Rightarrow> system
     \<Rightarrow> (http_error + initiate_ok) \<times> system" where
  "create_call newId uuid rm user ct tNew s =
     (if list_ex (\<lambda>c. call_id c = newId) (calls s) then (Inl InternalError, s)
      else (let groupCall = new_call newId uuid rm user ct tNew;
                s1 = s\<lparr>calls := save groupCall (calls s)\<rparr>;
                (groupCall', s2) = notify_invite rm user groupCall s1
            in (Inr (CreatedCall groupCall'), s2)))"

text \<open>
  \<open>initiate\<close>. \<open>now\<close> is the \<open>Date.now()\<close> of line 88, \<open>tEnd\<close> the clock \<open>endCall\<close>
  reads, \<open>tNew\<close> the clock at the creation of the new document. A missing or empty
  \<open>roomId\<close> is the empty string; a missing \<open>callType\<close> is \<open>None\<close>.
\<close>

definition initiate ::
  "oid \<Rightarrow> string \<Rightarrow> call_type option \<Rightarrow> int \<Rightarrow> int \<Rightarrow> int \<Rightarrow> oid \<Rightarrow> string \<Rightarrow> system
     \<Rightarrow> (http_error + initiate_ok) \<times> system" where
  "initiate user rid callTypeOpt now tEnd tNew newId uuid s =
     (let ct = (case callTypeOpt of None \<Rightarrow> Video | Some t \<Rightarrow> t) in
      if rid = [] then (Inl BadRequest, s)
      else case roomById (rooms s) rid of
        None \<Rightarrow> (Inl NotFound, s)
      | Some rm \<Rightarrow>
          if \<not> list_ex (\<lambda>p. p = user) (room.participants rm) then (Inl Forbidden, s)
          else (case findLive (calls s) rid of
                  None \<Rightarrow> create_call newId uuid rm user ct tNew s
                | Some existingCall \<Rightarrow>
                    if isAbandoned now existingCall then
                      (let (ended, s1) = endCall tEnd existingCall s;
                           s2 = s1\<lparr>calls := save ended (calls s1)\<rparr>
                       in create_call newId uuid rm user ct tNew s2)
                    else (Inr (ExistingCall existingCall), s)))"

section \<open>getCall, decline, join\<close>

definition getCall :: "oid \<Rightarrow> oid \<Rightarrow> system \<Rightarrow> http_error + group_call" where
  "getCall user cid s =
     (case findById (calls s) cid of
        None \<Rightarrow> Inl NotFound
      | Some groupCall \<Rightarrow>
          if \<not> list_ex (\<lambda>p. userId p = user) (participants groupCall) then Inl Forbidden
          else Inr groupCall)"

definition decline :: "oid \<Rightarrow> oid \<Rightarrow> system \<Rightarrow> (http_error + unit) \<times> system" where
  "decline user cid s =
     (case findById (calls s) cid of
        None \<Rightarrow> (Inl NotFound, s)
      | Some groupCall \<Rightarrow>
          (case find (\<lambda>p. userId p = user) (participants groupCall) of
             None \<Rightarrow> (Inl Forbidden, s)
           | Some _ \<Rightarrow>
               (let gc = groupCall\<lparr>participants :=
                           update_first (\<lambda>p. userId p = user)
                             (\<lambda>p. p\<lparr>participant.status := Declined\<rparr>) (participants groupCall)\<rparr>
                in (Inr (), s\<lparr>calls := save gc (calls s)\<rparr>))))"

text \<open>Lines 357-369: the changes \<open>join\<close> makes to the document.\<close>

definition join_doc :: "oid \<Rightarrow> int \<Rightarrow> group_call \<Rightarrow> group_call" where
  "join_doc user now groupCall =
     (let gc1 = groupCall\<lparr>participants :=
                  update_first (\<lambda>p. userId p = user)
                    (\<lambda>p. p\<lparr>participant.status := Joined, joinedAt := Some now\<rparr>)
                    (participants groupCall)\<rparr>;
          gc2 = (if user \<notin> set (activeParticipants gc1)
                 then gc1\<lparr>activeParticipants := activeParticipants gc1 @ [user]\<rparr> else gc1)
      in if status gc2 = Ringing \<and> length (activeParticipants gc2) \<ge> 2
         then gc2\<lparr>status := Active\<rparr> else gc2)"

definition join :: "oid \<Rightarrow> oid \<Rightarrow> int \<Rightarrow> system \<Rightarrow> (http_error + group_call) \<times> system" where
  "join user cid now s =
     (case findById (calls s) cid of
        None \<Rightarrow> (Inl NotFound, s)
      | Some groupCall \<Rightarrow>
          (case find (\<lambda>p. userId p = user) (participants groupCall) of
             None \<Rightarrow> (Inl Forbidden, s)
           | Some _ \<Rightarrow>
               (let gc = join_doc user now groupCall;
                    s1 = s\<lparr>calls := save gc (calls s)\<rparr>;
                    s2 = (if timers s1 (call_id gc) \<noteq> None then clearTimer (call_id gc) s1 else s1);
                    s3 = (if io s2
                          then s2\<lparr>emitted := emitted s2 @
                                 [ParticipantJoined (callRoomId gc) (call_id gc) user (activeParticipants gc)]\<rparr>
                          else s2)
                in (Inr gc, s3))))"

section \<open>leave\<close>

text \<open>
  The \<open>findOneAndUpdate\<close> of lines 440-455: every participant whose \<open>userId\<close> is the
  caller's gets status \<open>left\<close> and \<open>leftAt\<close>, the caller is pulled from
  \<open>activeParticipants\<close>, and the updated document is returned; \<open>None\<close> when no document
  has the id.
\<close>

definition leave_update :: "oid \<Rightarrow> int \<Rightarrow> group_call \<Rightarrow> group_call" where
  "leave_update user tUpd gc =
     gc\<lparr>participants :=
          map (\<lambda>p. if userId p = user then p\<lparr>participant.status := Left, leftAt := Some tUpd\<rparr> else p)
              (participants gc),
        activeParticipants := filter (\<lambda>u. u \<noteq> user) (activeParticipants gc)\<rparr>"

definition findOneAndUpdate ::
  "oid \<Rightarrow> oid \<Rightarrow> int \<Rightarrow> group_call list \<Rightarrow> group_call option \<times> group_call list" where
  "findOneAndUpdate cid user tUpd cs =
     (case findById cs cid of
        None \<Rightarrow> (None, cs)
      | Some gc \<Rightarrow> (let gc' = leave_update user tUpd gc in (Some gc', save gc' cs)))"

definition maxRetries :: nat where
  "maxRetries = 3"

text \<open>
  How the retry loop of lines 437-474 ends: \<open>break\<close> with the updated document, the 404
  of line 458, the \<open>throw\<close> of line 469, or the loop condition turning false.
\<close>

datatype loop_result = Updated group_call | UpdateNotFound | Thrown | LoopExit

text \<open>
  The retry loop. \<open>throws n\<close> says whether the write throws when \<open>retryCount\<close> is \<open>n\<close>
  (a write conflict, or any other error: the \<open>catch\<close> does not tell them apart). The
  result carries the store and the delays slept, in milliseconds.
\<close>

function leave_retry ::
  "(nat \<Rightarrow> bool) \<Rightarrow> oid \<Rightarrow> oid \<Rightarrow> int \<Rightarrow> group_call list \<Rightarrow> nat \<Rightarrow> nat list
     \<Rightarrow> loop_result \<times> group_call list \<times> nat list" where
  "leave_retry throws cid user tUpd cs retryCount slept =
     (if retryCount < maxRetries then
        (if throws retryCount then
           (if retryCount + 1 \<ge> maxRetries then (Thrown, cs, slept)
            else leave_retry throws cid user tUpd cs (retryCount + 1)
                   (slept @ [100 * (retryCount + 1)]))
         else (case findOneAndUpdate cid user tUpd cs of
                 (None, cs') \<Rightarrow> (UpdateNotFound, cs', slept)
               | (Some updateResult, cs') \<Rightarrow> (Updated updateResult, cs', slept)))
      else (LoopExit, cs, slept))"
  by pat_completeness auto
termination
  by (relation "measure (\<lambda>(throws, cid, user, tUpd, cs, retryCount, slept). maxRetries - retryCount)")
     auto

text \<open>Lines 494-555 of \<open>leave\<close>: the timer of the call is replaced or cleared.\<close>

definition manage_timer :: "group_call \<Rightarrow> system \<Rightarrow> system" where
  "manage_timer gc s =
     (if length (activeParticipants gc) = 1 then
        (let s1 = (if timers s (call_id gc) \<noteq> None then clearTimer (call_id gc) s else s)
         in s1\<lparr>timers := (timers s1)(call_id gc \<mapsto> \<lparr>handle = nextHandle s1, delay_ms = 30 * 1000\<rparr>),
               nextHandle := nextHandle s1 + 1\<rparr>)
      else (if timers s (call_id gc) \<noteq> None then clearTimer (call_id gc) s else s))"

text \<open>Lines 476-575: what \<open>leave\<close> does with the document the loop ended with.\<close>

definition leave_finish :: "oid \<Rightarrow> int \<Rightarrow> group_call \<Rightarrow> system \<Rightarrow> (http_error + bool) \<times> system" where
  "leave_finish user tEnd groupCall s =
     (let (gc, s1) = (if length (activeParticipants groupCall) = 0
                      then (let g = end_transition tEnd groupCall
                            in (g, s\<lparr>calls := save g (calls s)\<rparr>))
                      else (groupCall, s));
          s2 = manage_timer gc s1;
          s3 = (if io s2
                then s2\<lparr>emitted := emitted s2 @
                       [ParticipantLeft (callRoomId gc) (call_id gc) user (activeParticipants gc)
                          (status gc = Ended)]\<rparr>
                else s2)
      in (Inr (status gc = Ended), s3))"

text \<open>
  \<open>leave\<close>. \<open>tUpd\<close> is the clock of the update that succeeds, \<open>tEnd\<close> the clock of line
  479. The successful result is the \<open>callEnded\<close> of the response.
\<close>

definition leave ::
  "(nat \<Rightarrow> bool) \<Rightarrow> oid \<Rightarrow> oid \<Rightarrow> int \<Rightarrow> int \<Rightarrow> system \<Rightarrow> (http_error + bool) \<times> system" where
  "leave throws user cid tUpd tEnd s =
     (case findById (calls s) cid of
        None \<Rightarrow> (Inl NotFound, s)
      | Some groupCall \<Rightarrow>
          (case leave_retry throws cid user tUpd (calls s) 0 [] of
             (Thrown, cs, slept) \<Rightarrow> (Inl InternalError, s\<lparr>calls := cs\<rparr>)
           | (UpdateNotFound, cs, slept) \<Rightarrow> (Inl NotFound, s\<lparr>calls := cs\<rparr>)
           | (Updated updateResult, cs, slept) \<Rightarrow> leave_finish user tEnd updateResult (s\<lparr>calls := cs\<rparr>)
           | (LoopExit, cs, slept) \<Rightarrow> leave_finish user tEnd groupCall (s\<lparr>calls := cs\<rparr>)))"

section \<open>The no-participant timer\<close>

text \<open>
  The handler of lines 508-542, run when the timer registered for \<open>cid\<close> fires. A timer
  that was cleared does not fire.
\<close>

definition fire_timer :: "oid \<Rightarrow> int \<Rightarrow> system \<Rightarrow> system" where
  "fire_timer cid now s =
     (case timers s cid of
        None \<Rightarrow> s
      | Some t \<Rightarrow>
          (let s1 = (case findById (calls s) cid of
                       None \<Rightarrow> s
                     | Some fresh \<Rightarrow>
                         if length (activeParticipants fresh) \<le> 1 \<and> status fresh \<noteq> Ended then
                           (let f = end_transition now fresh;
                                sa = s\<lparr>calls := save f (calls s)\<rparr>
                            in if io sa
                               then sa\<lparr>emitted := emitted sa @
                                      [GroupCallEnded (callRoomId f) (call_id f) ''no_participants'']\<rparr>
                               else sa)
                         else s)
           in s1\<lparr>timers := (timers s1)(cid := None)\<rparr>))"

section \<open>A scenario\<close>

text \<open>
  Room \<open>R\<close> with members \<open>A\<close>, \<open>B\<close> and \<open>C\<close>; no write ever conflicts. \<open>A\<close> initiates
  a video call, \<open>B\<close> joins, \<open>A\<close> leaves, \<open>B\<close> leaves, and \<open>B\<close> sends the leave request
  once more.
\<close>

definition ex_room :: room where
  "ex_room = \<lparr>room_id = ''R'', name = ''room'', room.participants = [''A'', ''B'', ''C'']\<rparr>"

definition ex_sys0 :: system where
  "ex_sys0 = \<lparr>calls = [], rooms = [ex_room], timers = Map.empty, nextHandle = 0,
              emitted = [], sockets = [], io = True\<rparr>"

definition no_throw :: "nat \<Rightarrow> bool" where
  "no_throw n = False"

definition ex_s1 :: system where
  "ex_s1 = snd (initiate ''A'' ''R'' (Some Video) 0 0 0 ''c1'' ''u1'' ex_sys0)"

definition ex_s2 :: system where
  "ex_s2 = snd (join ''B'' ''c1'' 1000 ex_s1)"

definition ex_s3 :: system where
  "ex_s3 = snd (leave no_throw ''A'' ''c1'' 2000 2000 ex_s2)"

definition ex_s4 :: system where
  "ex_s4 = snd (leave no_throw ''B'' ''c1'' 60000 60000 ex_s3)"

definition ex_s5 :: system where
  "ex_s5 = snd (leave no_throw ''B'' ''c1'' 120000 120000 ex_s4)"

text \<open>
  After \<open>A\<close> has left, the timer fires: the call is ended with \<open>B\<close> still among the
  active participants.
\<close>

definition ex_f1 :: system where
  "ex_f1 = fire_timer ''c1'' 32000 ex_s3"

text \<open>After the initiation, \<open>C\<close> sends a leave request: the call rings on, with a timer.\<close>

definition ex_t1 :: system where
  "ex_t1 = snd (leave no_throw ''C'' ''c1'' 1000 1000 ex_s1)"

text \<open>After the initiation, \<open>B\<close> declines and then joins.\<close>

definition ex_d1 :: system where
  "ex_d1 = snd (decline ''B'' ''c1'' ex_s1)"

definition ex_d2 :: system where
  "ex_d2 = snd (join ''B'' ''c1'' 1000 ex_d1)"

text \<open>
  The call that scripts/seed.js creates: every participant invited, status ringing, no
  active participant.
\<close>

definition ex_seed_call :: group_call where
  "ex_seed_call =
     \<lparr>call_id = ''seed'', roomId = ''R'', callRoomId = ''seed-call-1'', initiator = ''A'',
      participants =
        map (\<lambda>u. \<lparr>userId = u, participant.status = Invited, joinedAt = None, leftAt = None,
                   notificationSent = False, notificationDelivered = False\<rparr>)
            [''A'', ''B'', ''C''],
      callType = Audio, status = Ringing, activeParticipants = [], startedAt = 0,
      endedAt = None, duration = None, createdAt = 0\<rparr>"

definition ex_seed_sys :: system where
  "ex_seed_sys = ex_sys0\<lparr>calls := [ex_seed_call]\<rparr>"

section \<open>Facts about the store\<close>

lemma findById_call_id: "findById cs cid = Some gc \<Longrightarrow> call_id gc = cid"
  by (auto simp: findById_def find_Some_iff)

lemma findById_list_ex: "list_ex (\<lambda>c. call_id c = cid) cs \<longleftrightarrow> findById cs cid \<noteq> None"
  by (auto simp: findById_def find_None_iff list_ex_iff)

lemma find_map_replace:
  "find (\<lambda>c. call_id c = call_id gc) cs = Some g0 \<Longrightarrow>
   find (\<lambda>c. call_id c = call_id gc) (map (\<lambda>c. if call_id c = call_id gc then gc else c) cs) = Some gc"
  by (induction cs) (auto split: if_splits)

lemma find_map_other:
  "cid \<noteq> call_id gc \<Longrightarrow>
   find (\<lambda>c. call_id c = cid) (map (\<lambda>c. if call_id c = call_id gc then gc else c) cs)
     = find (\<lambda>c. call_id c = cid) cs"
  by (induction cs) auto

lemma find_append_last:
  "find P (xs @ [y]) = (case find P xs of None \<Rightarrow> (if P y then Some y else None) | Some x \<Rightarrow> Some x)"
  by (induction xs) auto

lemma findById_save_same:
  "findById (save gc cs) (call_id gc) = Some gc"
proof (cases "findById cs (call_id gc)")
  case None
  then show ?thesis
    by (simp add: save_def findById_list_ex) (simp add: findById_def find_append_last)
next
  case (Some g0)
  then show ?thesis
    by (simp add: save_def findById_list_ex) (simp add: findById_def find_map_replace)
qed

lemma findById_save_other:
  "cid \<noteq> call_id gc \<Longrightarrow> findById (save gc cs) cid = findById cs cid"
  by (simp add: save_def findById_def find_map_other find_append_last split: option.splits)

section \<open>The retry loop of leave\<close>

lemma leave_retry_0:
  "leave_retry throws cid user tUpd cs 0 [] =
     (if throws 0 \<and> throws 1 \<and> throws 2 then (Thrown, cs, [100, 200])
      else (case findOneAndUpdate cid user tUpd cs of
              (None, cs') \<Rightarrow> (UpdateNotFound, cs', if throws 0 then if throws 1 then [100, 200] else [100] else [])
            | (Some u, cs') \<Rightarrow> (Updated u, cs', if throws 0 then if throws 1 then [100, 200] else [100] else [])))"
  by (simp add: maxRetries_def eval_nat_numeral split: prod.splits option.splits)

lemma leave_fail:
  assumes "findById (calls s) cid = Some c0" and "throws 0 \<and> throws 1 \<and> throws 2"
  shows "leave throws user cid tUpd tEnd s = (Inl InternalError, s)"
  using assms by (simp add: leave_def leave_retry_0 del: leave_retry.simps)

lemma leave_success:
  assumes "findById (calls s) cid = Some c0" and "\<not> (throws 0 \<and> throws 1 \<and> throws 2)"
  shows "leave throws user cid tUpd tEnd s =
           leave_finish user tEnd (leave_update user tUpd c0)
             (s\<lparr>calls := save (leave_update user tUpd c0) (calls s)\<rparr>)"
  using assms by (auto simp add: leave_def leave_retry_0 findOneAndUpdate_def Let_def simp del: leave_retry.simps)

lemma leave_finish_Inr: "\<exists>b s'. leave_finish user tEnd gc s = (Inr b, s')"
  by (simp add: leave_finish_def Let_def split: prod.splits)


section \<open>Evaluation of the scenario\<close>

lemmas eval_defs =
  initiate_def create_call_def new_call_def notify_invite_def allSockets_def
  participantSockets_def roomById_def findLive_def isAbandoned_def endCall_def
  save_def findById_def decline_def join_def join_doc_def leave_def leave_finish_def
  manage_timer_def clearTimer_def leave_update_def findOneAndUpdate_def end_transition_def
  finalize_participant_def fire_timer_def getPending_def pending_query_def
  no_throw_def maxRetries_def Let_def ex_room_def ex_sys0_def

lemma ex_s1_eval:
  "ex_s1 = \<lparr>calls = [new_call ''c1'' ''u1'' ex_room ''A'' Video 0], rooms = [ex_room],
            timers = Map.empty, nextHandle = 0, emitted = [], sockets = [], io = True\<rparr>"
  by (simp add: ex_s1_def eval_defs)

section \<open>The end of a call in leave\<close>

lemma calls_manage_timer: "calls (manage_timer gc s) = calls s"
  by (simp add: manage_timer_def clearTimer_def Let_def)

lemma io_manage_timer: "io (manage_timer gc s) = io s"
  by (simp add: manage_timer_def clearTimer_def Let_def)

lemma emitted_manage_timer: "emitted (manage_timer gc s) = emitted s"
  by (simp add: manage_timer_def clearTimer_def Let_def)

lemma leave_finish_calls:
  "calls (snd (leave_finish user tEnd gc s)) =
     (if activeParticipants gc = [] then save (end_transition tEnd gc) (calls s) else calls s)"
  by (simp add: leave_finish_def Let_def calls_manage_timer)

lemma leave_finish_result:
  "fst (leave_finish user tEnd gc s) = Inr (activeParticipants gc = [] \<or> status gc = Ended)"
  by (simp add: leave_finish_def Let_def end_transition_def)

lemma leave_Inr_not_all_throw:
  assumes "findById (calls s) cid = Some c0" and "leave throws user cid tUpd tEnd s = (Inr b, s')"
  shows "\<not> (throws 0 \<and> throws 1 \<and> throws 2)"
  using assms leave_fail [of s cid c0 throws user tUpd tEnd] by auto

lemma call_id_leave_update: "call_id (leave_update user tUpd gc) = call_id gc"
  by (simp add: leave_update_def)

lemma call_id_end_transition: "call_id (end_transition now gc) = call_id gc"
  by (simp add: end_transition_def)

text \<open>
  C5, as the code has it. When a successful \<open>leave\<close> removes the caller and no active
  participant remains,
  the stored session is ended with \<open>endedAt\<close> the clock read at the end and \<open>duration\<close>
  the whole seconds since \<open>startedAt\<close>; the caller is \<open>left\<close>, every other participant
  still \<open>invited\<close> becomes \<open>missed\<close>, every other participant \<open>joined\<close> without a
  \<open>leftAt\<close> gets \<open>leftAt = endedAt\<close>, all others are unchanged; and the response's
  \<open>callEnded\<close> is true. In every successful \<open>leave\<close>, \<open>callEnded\<close> says whether the
  session is ended afterwards: it is true exactly when no active participant remains or
  the session was ended already.
\<close>

theorem leave_last_participant_ends_call:
  assumes "findById (calls s) cid = Some c0"
      and "leave throws user cid tUpd tEnd s = (Inr callEnded, s')"
  shows "(filter (\<lambda>u. u \<noteq> user) (activeParticipants c0) = [] \<longrightarrow>
            callEnded
            \<and> (\<exists>c'. findById (calls s') cid = Some c'
                 \<and> status c' = Ended
                 \<and> endedAt c' = Some tEnd
                 \<and> duration c' = Some ((tEnd - startedAt c0) div 1000)
                 \<and> activeParticipants c' = []
                 \<and> participants c' =
                     map (\<lambda>p. if userId p = user
                                then p\<lparr>participant.status := Left, leftAt := Some tUpd\<rparr>
                              else if participant.status p = Invited
                                then p\<lparr>participant.status := Missed\<rparr>
                              else if participant.status p = Joined \<and> leftAt p = None
                                then p\<lparr>leftAt := Some tEnd\<rparr>
                              else p)
                         (participants c0)))
       \<and> callEnded = (filter (\<lambda>u. u \<noteq> user) (activeParticipants c0) = [] \<or> status c0 = Ended)"
proof -
  let ?u = "leave_update user tUpd c0"
  let ?s1 = "s\<lparr>calls := save ?u (calls s)\<rparr>"
  have cid: "call_id c0 = cid" using assms(1) by (rule findById_call_id)
  have nt: "\<not> (throws 0 \<and> throws 1 \<and> throws 2)"
    using assms by (rule leave_Inr_not_all_throw)
  have eq: "leave_finish user tEnd ?u ?s1 = (Inr callEnded, s')"
    using leave_success [OF assms(1) nt, of user tUpd tEnd] assms(2) by simp
  have res: "callEnded = (activeParticipants ?u = [] \<or> status ?u = Ended)"
    using leave_finish_result [of user tEnd ?u ?s1] eq by simp
  have cs: "calls s' =
     (if activeParticipants ?u = [] then save (end_transition tEnd ?u) (calls ?s1) else calls ?s1)"
    using leave_finish_calls [of user tEnd ?u ?s1] eq by simp
  have ap: "activeParticipants ?u = filter (\<lambda>u. u \<noteq> user) (activeParticipants c0)"
    by (simp add: leave_update_def)
  have st: "status ?u = status c0" by (simp add: leave_update_def)
  have part1: "callEnded \<and> (\<exists>c'. findById (calls s') cid = Some c'
                 \<and> status c' = Ended
                 \<and> endedAt c' = Some tEnd
                 \<and> duration c' = Some ((tEnd - startedAt c0) div 1000)
                 \<and> activeParticipants c' = []
                 \<and> participants c' =
                     map (\<lambda>p. if userId p = user
                                then p\<lparr>participant.status := Left, leftAt := Some tUpd\<rparr>
                              else if participant.status p = Invited
                                then p\<lparr>participant.status := Missed\<rparr>
                              else if participant.status p = Joined \<and> leftAt p = None
                                then p\<lparr>leftAt := Some tEnd\<rparr>
                              else p)
                         (participants c0))"
    if empty: "filter (\<lambda>u. u \<noteq> user) (activeParticipants c0) = []"
  proof -
    let ?e = "end_transition tEnd ?u"
    have "call_id ?e = cid" by (simp add: call_id_end_transition call_id_leave_update cid)
    then have "findById (save ?e (calls ?s1)) cid = Some ?e"
      using findById_save_same [of ?e "calls ?s1"] by simp
    with cs ap empty have f: "findById (calls s') cid = Some ?e" by simp
    have p: "participants ?e =
                     map (\<lambda>p. if userId p = user
                                then p\<lparr>participant.status := Left, leftAt := Some tUpd\<rparr>
                              else if participant.status p = Invited
                                then p\<lparr>participant.status := Missed\<rparr>
                              else if participant.status p = Joined \<and> leftAt p = None
                                then p\<lparr>leftAt := Some tEnd\<rparr>
                              else p)
                         (participants c0)"
      by (simp add: end_transition_def leave_update_def finalize_participant_def)
    have q: "status ?e = Ended" "endedAt ?e = Some tEnd"
      "duration ?e = Some ((tEnd - startedAt c0) div 1000)"
      by (simp_all add: end_transition_def leave_update_def)
    have r: "activeParticipants ?e = []"
      using ap empty by (simp add: end_transition_def)
    from res ap empty have "callEnded" by simp
    with f p q r show ?thesis by blast
  qed
  have part2: "callEnded = (filter (\<lambda>u. u \<noteq> user) (activeParticipants c0) = [] \<or> status c0 = Ended)"
    using res ap st by simp
  from part1 part2 show ?thesis by blast
qed


theorem leave_last_participant_ends_call_witness:
  "findById (calls ex_s3) ''c1'' = Some (hd (calls ex_s3))
   \<and> leave no_throw ''B'' ''c1'' 60000 60000 ex_s3 = (Inr True, ex_s4)
   \<and> filter (\<lambda>u. u \<noteq> ''B'') (activeParticipants (hd (calls ex_s3))) = []
   \<and> status (hd (calls ex_s3)) \<noteq> Ended
   \<and> (\<exists>c'. findById (calls ex_s4) ''c1'' = Some c'
          \<and> status c' = Ended
          \<and> endedAt c' = Some 60000
          \<and> duration c' = Some 60
          \<and> activeParticipants c' = []
          \<and> map participant.status (participants c') = [Left, Left, Missed])"
proof -
  have h1: "findById (calls ex_s3) ''c1'' = Some (hd (calls ex_s3))"
    by (simp add: ex_s3_def ex_s2_def ex_s1_def eval_defs)
  have h2: "leave no_throw ''B'' ''c1'' 60000 60000 ex_s3 = (Inr True, ex_s4)"
    by (simp add: prod_eq_iff ex_s4_def) (simp add: ex_s3_def ex_s2_def ex_s1_def eval_defs)
  have h3: "filter (\<lambda>u. u \<noteq> ''B'') (activeParticipants (hd (calls ex_s3))) = []"
    by (simp add: ex_s3_def ex_s2_def ex_s1_def eval_defs)
  have h4: "status (hd (calls ex_s3)) \<noteq> Ended"
    by (simp add: ex_s3_def ex_s2_def ex_s1_def eval_defs)
  have h5: "startedAt (hd (calls ex_s3)) = 0"
    "map participant.status (participants (hd (calls ex_s3))) = [Left, Joined, Invited]"
    "map userId (participants (hd (calls ex_s3))) = [''A'', ''B'', ''C'']"
    by (simp_all add: ex_s3_def ex_s2_def ex_s1_def eval_defs)
  from leave_last_participant_ends_call [OF h1 h2] h3
  obtain c' where c: "findById (calls ex_s4) ''c1'' = Some c'" "status c' = Ended"
     "endedAt c' = Some 60000" "duration c' = Some ((60000 - startedAt (hd (calls ex_s3))) div 1000)"
     "activeParticipants c' = []"
     "participants c' =
                     map (\<lambda>p. if userId p = ''B''
                                then p\<lparr>participant.status := Left, leftAt := Some 60000\<rparr>
                              else if participant.status p = Invited
                                then p\<lparr>participant.status := Missed\<rparr>
                              else if participant.status p = Joined \<and> leftAt p = None
                                then p\<lparr>leftAt := Some 60000\<rparr>
                              else p)
                         (participants (hd (calls ex_s3)))"
    by blast
  have "map participant.status (participants c') = [Left, Left, Missed]"
    unfolding c(6) by (simp add: ex_s3_def ex_s2_def ex_s1_def eval_defs)
  with c h5 h1 h2 h3 h4 show ?thesis by simp
qed

text \<open>
  C5 as stated fails in its last clause: the timer has ended the call with \<open>B\<close> still
  among the active participants; \<open>C\<close> then leaves, \<open>B\<close> remains, the session and its
  \<open>endedAt\<close> are as before, and the response's \<open>callEnded\<close> is true.
\<close>

theorem leave_reports_earlier_end_counterexample:
  "map status (calls ex_f1) = [Ended]
   \<and> map endedAt (calls ex_f1) = [Some 32000]
   \<and> map activeParticipants (calls ex_f1) = [[''B'']]
   \<and> fst (leave no_throw ''C'' ''c1'' 40000 40000 ex_f1) = Inr True
   \<and> map status (calls (snd (leave no_throw ''C'' ''c1'' 40000 40000 ex_f1))) = [Ended]
   \<and> map endedAt (calls (snd (leave no_throw ''C'' ''c1'' 40000 40000 ex_f1))) = [Some 32000]
   \<and> map activeParticipants (calls (snd (leave no_throw ''C'' ''c1'' 40000 40000 ex_f1)))
       = [[''B'']]"
proof -
  have a: "map status (calls ex_f1) = [Ended]" "map endedAt (calls ex_f1) = [Some 32000]"
    "map activeParticipants (calls ex_f1) = [[''B'']]"
    by (simp_all add: ex_f1_def ex_s3_def ex_s2_def ex_s1_def eval_defs)
  have b: "fst (leave no_throw ''C'' ''c1'' 40000 40000 ex_f1) = Inr True"
    by (simp add: ex_f1_def ex_s3_def ex_s2_def ex_s1_def eval_defs)
  have c: "map status (calls (snd (leave no_throw ''C'' ''c1'' 40000 40000 ex_f1))) = [Ended]"
    "map endedAt (calls (snd (leave no_throw ''C'' ''c1'' 40000 40000 ex_f1))) = [Some 32000]"
    "map activeParticipants (calls (snd (leave no_throw ''C'' ''c1'' 40000 40000 ex_f1)))
       = [[''B'']]"
    by (simp_all add: ex_f1_def ex_s3_def ex_s2_def ex_s1_def eval_defs)
  from a b c show ?thesis by blast
qed

section \<open>The timer registry\<close>

lemmas ex_s3_defs = ex_s3_def ex_s2_def ex_s1_def eval_defs

lemma timers_manage_timer:
  "timers (manage_timer gc s) =
     (if length (activeParticipants gc) = 1
      then (timers s)(call_id gc \<mapsto> \<lparr>handle = nextHandle s, delay_ms = 30000\<rparr>)
      else (timers s)(call_id gc := None))"
  by (auto simp: manage_timer_def clearTimer_def Let_def)

lemma timers_leave_finish:
  "timers (snd (leave_finish user tEnd gc s)) =
     (if length (activeParticipants gc) = 1
      then (timers s)(call_id gc \<mapsto> \<lparr>handle = nextHandle s, delay_ms = 30000\<rparr>)
      else (timers s)(call_id gc := None))"
  by (simp add: leave_finish_def Let_def timers_manage_timer end_transition_def)

lemma timers_join:
  assumes "join user cid now s = (Inr g, sj)"
  shows "timers sj = (timers s)(cid := None)"
  using assms
  by (auto simp: join_def join_doc_def clearTimer_def Let_def findById_call_id
           split: option.splits if_splits)

lemma fire_timer_cleared: "timers s cid = None \<Longrightarrow> fire_timer cid now s = s"
  by (simp add: fire_timer_def)

lemma timers_fire_timer: "timers (fire_timer cid now s) = (timers s)(cid := None)"
  by (auto simp: fire_timer_def Let_def split: option.splits)

lemma fire_timer_ends:
  assumes "timers s cid = Some t" and "findById (calls s) cid = Some c0"
      and "length (activeParticipants c0) \<le> 1" and "status c0 \<noteq> Ended"
  shows "calls (fire_timer cid now s) = save (end_transition now c0) (calls s)"
    and "emitted (fire_timer cid now s) =
           emitted s @ (if io s then [GroupCallEnded (callRoomId c0) cid ''no_participants''] else [])"
  using assms findById_call_id [OF assms(2)]
  by (simp_all add: fire_timer_def Let_def end_transition_def)

lemma fire_timer_keeps:
  assumes "findById (calls s) cid = Some c0"
      and "\<not> (length (activeParticipants c0) \<le> 1 \<and> status c0 \<noteq> Ended)"
  shows "calls (fire_timer cid now s) = calls s" and "emitted (fire_timer cid now s) = emitted s"
  using assms by (auto simp: fire_timer_def Let_def split: option.splits)

text \<open>
  C6. A successful \<open>leave\<close> that leaves exactly one active participant registers a timer
  of 30 seconds for the session in place of any timer already there, and any other
  successful \<open>leave\<close> (more than one remains, or none and the session ended) removes the
  session's timer. A successful \<open>join\<close> removes the timer, and a removed timer does not
  fire. When the timer fires, the handler re-reads the session and ends it only if it has
  at most one active participant and is not ended, then emitting \<open>group_call_ended\<close>
  with reason \<open>no_participants\<close> to the call's channel (when the Socket.IO server is
  installed); otherwise store and events are untouched. Either way the registry entry is
  removed.
\<close>

theorem abandonment_timer:
  assumes "findById (calls s) cid = Some c0"
  shows "(leave throws user cid tUpd tEnd s = (Inr callEnded, sl) \<longrightarrow>
            timers sl =
              (if length (filter (\<lambda>u. u \<noteq> user) (activeParticipants c0)) = 1
               then (timers s)(cid \<mapsto> \<lparr>handle = nextHandle s, delay_ms = 30 * 1000\<rparr>)
               else (timers s)(cid := None)))
       \<and> (join user cid now s = (Inr g, sj) \<longrightarrow>
            timers sj = (timers s)(cid := None) \<and> fire_timer cid tFire sj = sj)
       \<and> timers (fire_timer cid tFire s) = (timers s)(cid := None)
       \<and> (timers s cid \<noteq> None \<longrightarrow>
            (if length (activeParticipants c0) \<le> 1 \<and> status c0 \<noteq> Ended
             then findById (calls (fire_timer cid tFire s)) cid = Some (end_transition tFire c0)
                  \<and> status (end_transition tFire c0) = Ended
                  \<and> emitted (fire_timer cid tFire s) =
                      emitted s @ (if io s then [GroupCallEnded (callRoomId c0) cid ''no_participants'']
                                   else [])
             else calls (fire_timer cid tFire s) = calls s
                  \<and> emitted (fire_timer cid tFire s) = emitted s))"
proof -
  have cid: "call_id c0 = cid" using assms by (rule findById_call_id)
  have a: "timers sl =
              (if length (filter (\<lambda>u. u \<noteq> user) (activeParticipants c0)) = 1
               then (timers s)(cid \<mapsto> \<lparr>handle = nextHandle s, delay_ms = 30 * 1000\<rparr>)
               else (timers s)(cid := None))"
    if l: "leave throws user cid tUpd tEnd s = (Inr callEnded, sl)"
  proof -
    let ?u = "leave_update user tUpd c0"
    have nt: "\<not> (throws 0 \<and> throws 1 \<and> throws 2)"
      using assms l by (rule leave_Inr_not_all_throw)
    have "leave_finish user tEnd ?u (s\<lparr>calls := save ?u (calls s)\<rparr>) = (Inr callEnded, sl)"
      using leave_success [OF assms nt, of user tUpd tEnd] l by simp
    then have "sl = snd (leave_finish user tEnd ?u (s\<lparr>calls := save ?u (calls s)\<rparr>))"
      by simp
    then show ?thesis
      by (simp add: timers_leave_finish call_id_leave_update cid) (simp add: leave_update_def)
  qed
  have b: "timers sj = (timers s)(cid := None) \<and> fire_timer cid tFire sj = sj"
    if j: "join user cid now s = (Inr g, sj)"
  proof -
    have "timers sj = (timers s)(cid := None)" using j by (rule timers_join)
    then show ?thesis by (simp add: fire_timer_cleared)
  qed
  have c: "timers (fire_timer cid tFire s) = (timers s)(cid := None)"
    by (rule timers_fire_timer)
  have d: "(if length (activeParticipants c0) \<le> 1 \<and> status c0 \<noteq> Ended
             then findById (calls (fire_timer cid tFire s)) cid = Some (end_transition tFire c0)
                  \<and> status (end_transition tFire c0) = Ended
                  \<and> emitted (fire_timer cid tFire s) =
                      emitted s @ (if io s then [GroupCallEnded (callRoomId c0) cid ''no_participants'']
                                   else [])
             else calls (fire_timer cid tFire s) = calls s
                  \<and> emitted (fire_timer cid tFire s) = emitted s)"
    if t: "timers s cid \<noteq> None"
  proof (cases "length (activeParticipants c0) \<le> 1 \<and> status c0 \<noteq> Ended")
    case True
    from t obtain tm where tm: "timers s cid = Some tm" by blast
    have "call_id (end_transition tFire c0) = cid" by (simp add: call_id_end_transition cid)
    then have "findById (save (end_transition tFire c0) (calls s)) cid = Some (end_transition tFire c0)"
      using findById_save_same [of "end_transition tFire c0" "calls s"] by simp
    with True fire_timer_ends [OF tm assms, of tFire] show ?thesis
      by (simp add: end_transition_def)
  next
    case False
    with fire_timer_keeps [OF assms, of tFire] show ?thesis by auto
  qed
  from a b c d show ?thesis by blast
qed


theorem abandonment_timer_witness:
  "findById (calls ex_s3) ''c1'' = Some (hd (calls ex_s3))
   \<and> leave no_throw ''C'' ''c1'' 3000 3000 ex_s3
       = (Inr False, snd (leave no_throw ''C'' ''c1'' 3000 3000 ex_s3))
   \<and> join ''C'' ''c1'' 3000 ex_s3
       = (Inr (join_doc ''C'' 3000 (hd (calls ex_s3))), snd (join ''C'' ''c1'' 3000 ex_s3))
   \<and> timers ex_s3 ''c1'' = Some \<lparr>handle = 0, delay_ms = 30000\<rparr>
   \<and> timers (snd (leave no_throw ''C'' ''c1'' 3000 3000 ex_s3)) ''c1''
       = Some \<lparr>handle = 1, delay_ms = 30000\<rparr>
   \<and> timers (snd (join ''C'' ''c1'' 3000 ex_s3)) ''c1'' = None
   \<and> timers (fire_timer ''c1'' 32000 ex_s3) ''c1'' = None
   \<and> map status (calls (fire_timer ''c1'' 32000 ex_s3)) = [Ended]
   \<and> emitted (fire_timer ''c1'' 32000 ex_s3)
       = emitted ex_s3 @ [GroupCallEnded ''group-call-u1'' ''c1'' ''no_participants'']"
proof -
  have h1: "findById (calls ex_s3) ''c1'' = Some (hd (calls ex_s3))"
    by (simp add: ex_s3_defs)
  have h2: "leave no_throw ''C'' ''c1'' 3000 3000 ex_s3
       = (Inr False, snd (leave no_throw ''C'' ''c1'' 3000 3000 ex_s3))"
    by (simp add: prod_eq_iff) (simp add: ex_s3_defs)
  have h3: "join ''C'' ''c1'' 3000 ex_s3
       = (Inr (join_doc ''C'' 3000 (hd (calls ex_s3))), snd (join ''C'' ''c1'' 3000 ex_s3))"
    by (simp add: prod_eq_iff) (simp add: ex_s3_defs)
  have h4: "timers ex_s3 ''c1'' = Some \<lparr>handle = 0, delay_ms = 30000\<rparr>"
    by (simp add: ex_s3_defs)
  have h5: "nextHandle ex_s3 = 1" "io ex_s3"
    "length (filter (\<lambda>u. u \<noteq> ''C'') (activeParticipants (hd (calls ex_s3)))) = 1"
    "length (activeParticipants (hd (calls ex_s3))) \<le> 1" "status (hd (calls ex_s3)) \<noteq> Ended"
    "callRoomId (hd (calls ex_s3)) = ''group-call-u1''"
    by (simp_all add: ex_s3_defs)
  have h6: "map status (calls (fire_timer ''c1'' 32000 ex_s3)) = [Ended]"
    by (simp add: ex_s3_defs)
  note t = abandonment_timer [OF h1, of no_throw "''C''" 3000 3000 False
      "snd (leave no_throw ''C'' ''c1'' 3000 3000 ex_s3)" 3000
      "join_doc ''C'' 3000 (hd (calls ex_s3))" "snd (join ''C'' ''c1'' 3000 ex_s3)" 32000]
  from t h2 h5 have a: "timers (snd (leave no_throw ''C'' ''c1'' 3000 3000 ex_s3)) ''c1''
       = Some \<lparr>handle = 1, delay_ms = 30000\<rparr>" by simp
  from t h3 have b: "timers (snd (join ''C'' ''c1'' 3000 ex_s3)) ''c1'' = None" by simp
  from t have c: "timers (fire_timer ''c1'' 32000 ex_s3) ''c1'' = None" by simp
  from t h4 h5 have d: "emitted (fire_timer ''c1'' 32000 ex_s3)
       = emitted ex_s3 @ [GroupCallEnded ''group-call-u1'' ''c1'' ''no_participants'']" by simp
  from h1 h2 h3 h4 h6 a b c d show ?thesis by blast
qed

section \<open>initiate on a room with a live session\<close>

lemmas ex_s1_defs = ex_s1_def eval_defs

lemmas ex_t1_defs = ex_t1_def ex_s1_def eval_defs

lemma notify_invite_unsent:
  assumes "concat (map (\<lambda>pid. map (\<lambda>k. GroupIncomingCall (socket_id k) (call_id gc))
                                  (participantSockets rid user pid s)) ps) = []"
  shows "filter (\<lambda>pid. participantSockets rid user pid s \<noteq> []) ps = []"
  using assms by (induction ps) auto

lemma notify_invite_cases:
  assumes "notify_invite rm user gc s = (gc', s')"
  shows "call_id gc' = call_id gc \<and> callRoomId gc' = callRoomId gc \<and> status gc' = status gc
         \<and> activeParticipants gc' = activeParticipants gc \<and> startedAt gc' = startedAt gc
         \<and> roomId gc' = roomId gc
         \<and> map userId (participants gc') = map userId (participants gc)
         \<and> map participant.status (participants gc') = map participant.status (participants gc)
         \<and> timers s' = timers s
         \<and> ((gc' = gc \<and> calls s' = calls s) \<or> calls s' = save gc' (calls s))"
proof (cases "io s")
  case False
  with assms show ?thesis by (simp add: notify_invite_def)
next
  case True
  let ?sent = "concat (map (\<lambda>pid. map (\<lambda>k. GroupIncomingCall (socket_id k) (call_id gc))
                                  (participantSockets (roomId gc) user pid s)) (room.participants rm))"
  show ?thesis
  proof (cases "?sent = []")
    case e: True
    then have n: "filter (\<lambda>pid. participantSockets (roomId gc) user pid s \<noteq> []) (room.participants rm) = []"
      by (rule notify_invite_unsent)
    have "notify_invite rm user gc s = (gc, s)"
      unfolding notify_invite_def Let_def e n using True by simp
    with assms show ?thesis by simp
  next
    case ne: False
    with assms True show ?thesis
      by (auto simp: notify_invite_def Let_def comp_def)
  qed
qed

lemma create_call_fresh:
  assumes fresh: "findById cs0 newId = None" and cs: "calls s = cs0"
  shows "\<exists>gc s'. create_call newId uuid rm user ct tNew s = (Inr (CreatedCall gc), s')
           \<and> call_id gc = newId \<and> callRoomId gc = ''group-call-'' @ uuid
           \<and> roomId gc = room_id rm
           \<and> status gc = Ringing \<and> activeParticipants gc = [user] \<and> startedAt gc = tNew
           \<and> map userId (participants gc) = room.participants rm
           \<and> map participant.status (participants gc)
               = map (\<lambda>pid. if pid = user then Joined else Invited) (room.participants rm)
           \<and> findById (calls s') newId = Some gc
           \<and> (\<forall>cid. cid \<noteq> newId \<longrightarrow> findById (calls s') cid = findById (calls s) cid)
           \<and> timers s' = timers s"
proof -
  let ?g = "new_call newId uuid rm user ct tNew"
  let ?s1 = "s\<lparr>calls := save ?g (calls s)\<rparr>"
  obtain gc' s' where n: "notify_invite rm user ?g ?s1 = (gc', s')" by (cases "notify_invite rm user ?g ?s1")
  have nex: "\<not> list_ex (\<lambda>c. call_id c = newId) (calls s)"
    using fresh cs by (simp add: findById_list_ex)
  then have cc: "create_call newId uuid rm user ct tNew s = (Inr (CreatedCall gc'), s')"
    using n by (simp add: create_call_def Let_def)
  have idg: "call_id ?g = newId" by (simp add: new_call_def)
  note f = notify_invite_cases [OF n]
  have id': "call_id gc' = newId" using f idg by simp
  have stored1: "findById (calls ?s1) newId = Some ?g"
    using findById_save_same [of ?g "calls s"] idg by simp
  have stored: "findById (calls s') newId = Some gc'"
  proof -
    from f have "(gc' = ?g \<and> calls s' = calls ?s1) \<or> calls s' = save gc' (calls ?s1)" by blast
    then show ?thesis
    proof
      assume "gc' = ?g \<and> calls s' = calls ?s1"
      with stored1 show ?thesis by simp
    next
      assume "calls s' = save gc' (calls ?s1)"
      with findById_save_same [of gc' "calls ?s1"] id' show ?thesis by simp
    qed
  qed
  have others: "findById (calls s') cid = findById (calls s) cid" if "cid \<noteq> newId" for cid
  proof -
    have a: "findById (calls ?s1) cid = findById (calls s) cid"
      using that idg findById_save_other [of cid ?g "calls s"] by simp
    from f have "(gc' = ?g \<and> calls s' = calls ?s1) \<or> calls s' = save gc' (calls ?s1)" by blast
    then show ?thesis
    proof
      assume "gc' = ?g \<and> calls s' = calls ?s1"
      with a show ?thesis by simp
    next
      assume "calls s' = save gc' (calls ?s1)"
      with a that id' findById_save_other [of cid gc' "calls ?s1"] show ?thesis by simp
    qed
  qed
  have fields: "callRoomId gc' = ''group-call-'' @ uuid" "status gc' = Ringing"
    "activeParticipants gc' = [user]" "startedAt gc' = tNew" "roomId gc' = room_id rm"
    "map userId (participants gc') = room.participants rm"
    "map participant.status (participants gc')
               = map (\<lambda>pid. if pid = user then Joined else Invited) (room.participants rm)"
    using f by (simp_all add: new_call_def comp_def)
  have tm: "timers s' = timers s" using f by simp
  from cc id' fields stored others tm show ?thesis by blast
qed


lemma findLive_stored:
  assumes "findLive cs rid = Some existingCall"
  shows "findById cs (call_id existingCall) \<noteq> None"
    and "roomId existingCall = rid" and "status existingCall \<noteq> Ended"
proof -
  from assms obtain i where i: "i < length cs" "existingCall = cs ! i"
      "roomId (cs ! i) = rid \<and> status (cs ! i) \<in> {Ringing, Active}"
    by (auto simp: findLive_def find_Some_iff)
  from i(1,2) have "existingCall \<in> set cs" by simp
  then show "findById cs (call_id existingCall) \<noteq> None"
    by (auto simp: findById_def find_None_iff)
  from i show "roomId existingCall = rid" by simp
  from i show "status existingCall \<noteq> Ended" by auto
qed

lemma initiate_live:
  assumes "rid \<noteq> []" and "roomById (rooms s) rid = Some rm"
      and "user \<in> set (room.participants rm)"
      and "findLive (calls s) rid = Some existingCall"
  shows "initiate user rid ct now tEnd tNew newId uuid s =
           (if isAbandoned now existingCall
            then create_call newId uuid rm user (case ct of None \<Rightarrow> Video | Some t \<Rightarrow> t) tNew
                   ((clearTimer (call_id existingCall) s)
                      \<lparr>calls := save (end_transition tEnd existingCall) (calls s)\<rparr>)
            else (Inr (ExistingCall existingCall), s))"
  using assms
  by (simp add: initiate_def Let_def endCall_def list_ex_iff clearTimer_def)

lemma end_transition_fields:
  "status (end_transition now gc) = Ended"
  "endedAt (end_transition now gc) = Some now"
  "duration (end_transition now gc) = Some ((now - startedAt gc) div 1000)"
  "activeParticipants (end_transition now gc) = activeParticipants gc"
  "participants (end_transition now gc) =
     map (\<lambda>p. if participant.status p = Invited then p\<lparr>participant.status := Missed\<rparr>
              else if participant.status p = Joined \<and> leftAt p = None then p\<lparr>leftAt := Some now\<rparr>
              else p)
         (participants gc)"
  by (simp_all add: end_transition_def finalize_participant_def)

lemma initiate_abandoned:
  assumes "rid \<noteq> []" and "roomById (rooms s) rid = Some rm"
      and "user \<in> set (room.participants rm)"
      and "findLive (calls s) rid = Some existingCall"
      and ab: "isAbandoned now existingCall" and fresh: "findById (calls s) newId = None"
  shows "\<exists>gc s'. initiate user rid ct now tEnd tNew newId uuid s = (Inr (CreatedCall gc), s')
           \<and> call_id gc = newId \<and> callRoomId gc = ''group-call-'' @ uuid
           \<and> roomId gc = rid
           \<and> status gc = Ringing \<and> activeParticipants gc = [user] \<and> startedAt gc = tNew
           \<and> findById (calls s') newId = Some gc
           \<and> findById (calls s') (call_id existingCall) = Some (end_transition tEnd existingCall)
           \<and> timers s' = (timers s)(call_id existingCall := None)"
proof -
  let ?e = "end_transition tEnd existingCall"
  let ?s2 = "(clearTimer (call_id existingCall) s)\<lparr>calls := save ?e (calls s)\<rparr>"
  let ?ct = "case ct of None \<Rightarrow> Video | Some t \<Rightarrow> t"
  have ne: "call_id existingCall \<noteq> newId"
    using findLive_stored(1) [OF assms(4)] fresh by auto
  have ide: "call_id ?e = call_id existingCall" by (rule call_id_end_transition)
  have fr2: "findById (save ?e (calls s)) newId = None"
    using findById_save_other [of newId ?e "calls s"] ne ide fresh by simp
  have cs2: "calls ?s2 = save ?e (calls s)" by (simp add: clearTimer_def)
  from create_call_fresh [OF fr2 cs2, of uuid rm user ?ct tNew]
  obtain gc s' where c: "create_call newId uuid rm user ?ct tNew ?s2 = (Inr (CreatedCall gc), s')"
      "call_id gc = newId" "callRoomId gc = ''group-call-'' @ uuid" "roomId gc = room_id rm"
      "status gc = Ringing" "activeParticipants gc = [user]" "startedAt gc = tNew"
      "findById (calls s') newId = Some gc"
      "\<forall>cid. cid \<noteq> newId \<longrightarrow> findById (calls s') cid = findById (calls ?s2) cid"
      "timers s' = timers ?s2"
    by blast
  have rid: "room_id rm = rid"
    using assms(2) by (auto simp: roomById_def find_Some_iff)
  have i: "initiate user rid ct now tEnd tNew newId uuid s = (Inr (CreatedCall gc), s')"
    using initiate_live [OF assms(1-4), of ct now tEnd tNew newId uuid] ab c(1) by simp
  have old: "findById (calls s') (call_id existingCall) = Some ?e"
    using c(9) ne cs2 findById_save_same [of ?e "calls s"] ide by simp
  have tm: "timers s' = (timers s)(call_id existingCall := None)"
    using c(10) by (simp add: clearTimer_def)
  from i c(2,3,5,6,7,8) c(4) rid old tm show ?thesis by blast
qed

text \<open>
  C4. When \<open>initiate\<close> finds a ringing or active session of the room, the session counts
  as abandoned exactly when it has no active participant, or is ringing and started more
  than 5 minutes before now. A session that is not abandoned is returned as it is and the
  system is unchanged. An abandoned session is ended and stored, and a new session is
  created and stored under the fresh id, ringing, with the initiator as its only active
  participant and a channel formed from the newly generated UUID.
\<close>

theorem initiate_existing_session:
  assumes "rid \<noteq> []" and "roomById (rooms s) rid = Some rm"
      and "user \<in> set (room.participants rm)"
      and "findLive (calls s) rid = Some existingCall"
  shows "isAbandoned now existingCall =
           (length (activeParticipants existingCall) = 0
            \<or> (status existingCall = Ringing \<and> now - startedAt existingCall > 5 * 60 * 1000))
       \<and> (\<not> isAbandoned now existingCall \<longrightarrow>
            initiate user rid ct now tEnd tNew newId uuid s = (Inr (ExistingCall existingCall), s))
       \<and> (isAbandoned now' existingCall \<and> findById (calls s) newId = None \<longrightarrow>
            (\<exists>gc s'. initiate user rid ct now' tEnd tNew newId uuid s = (Inr (CreatedCall gc), s')
               \<and> call_id gc = newId
               \<and> callRoomId gc = ''group-call-'' @ uuid
               \<and> roomId gc = rid
               \<and> status gc = Ringing
               \<and> activeParticipants gc = [user]
               \<and> findById (calls s') newId = Some gc
               \<and> (\<exists>old. findById (calls s') (call_id existingCall) = Some old
                      \<and> status old = Ended \<and> endedAt old = Some tEnd)))"
proof -
  have a: "isAbandoned now existingCall =
           (length (activeParticipants existingCall) = 0
            \<or> (status existingCall = Ringing \<and> now - startedAt existingCall > 5 * 60 * 1000))"
    by (simp add: isAbandoned_def Let_def)
  have b: "initiate user rid ct now tEnd tNew newId uuid s = (Inr (ExistingCall existingCall), s)"
    if "\<not> isAbandoned now existingCall"
    using initiate_live [OF assms, of ct now tEnd tNew newId uuid] that by simp
  have c: "\<exists>gc s'. initiate user rid ct now' tEnd tNew newId uuid s = (Inr (CreatedCall gc), s')
               \<and> call_id gc = newId
               \<and> callRoomId gc = ''group-call-'' @ uuid
               \<and> roomId gc = rid
               \<and> status gc = Ringing
               \<and> activeParticipants gc = [user]
               \<and> findById (calls s') newId = Some gc
               \<and> (\<exists>old. findById (calls s') (call_id existingCall) = Some old
                      \<and> status old = Ended \<and> endedAt old = Some tEnd)"
    if "isAbandoned now' existingCall" and "findById (calls s) newId = None"
    using initiate_abandoned [OF assms that, of ct tEnd tNew uuid] end_transition_fields(1,2)
    by metis
  from a b c show ?thesis by blast
qed

theorem initiate_existing_session_witness:
  "''R'' \<noteq> []
   \<and> roomById (rooms ex_s1) ''R'' = Some ex_room
   \<and> ''B'' \<in> set (room.participants ex_room)
   \<and> findLive (calls ex_s1) ''R'' = Some (hd (calls ex_s1))
   \<and> \<not> isAbandoned 1000 (hd (calls ex_s1))
   \<and> isAbandoned 400000 (hd (calls ex_s1))
   \<and> findById (calls ex_s1) ''c2'' = None
   \<and> initiate ''B'' ''R'' (Some Audio) 1000 400000 400001 ''c2'' ''u2'' ex_s1
       = (Inr (ExistingCall (hd (calls ex_s1))), ex_s1)
   \<and> (\<exists>gc s'. initiate ''B'' ''R'' (Some Audio) 400000 400000 400001 ''c2'' ''u2'' ex_s1
                  = (Inr (CreatedCall gc), s')
          \<and> call_id gc = ''c2''
          \<and> callRoomId gc = ''group-call-u2''
          \<and> status gc = Ringing
          \<and> activeParticipants gc = [''B'']
          \<and> findById (calls s') ''c2'' = Some gc
          \<and> (\<exists>old. findById (calls s') ''c1'' = Some old
                 \<and> status old = Ended \<and> endedAt old = Some 400000))"
proof -
  have h1: "''R'' \<noteq> []" by simp
  have h2: "roomById (rooms ex_s1) ''R'' = Some ex_room" by (simp add: ex_s1_defs)
  have h3: "''B'' \<in> set (room.participants ex_room)" by (simp add: ex_room_def)
  have h4: "findLive (calls ex_s1) ''R'' = Some (hd (calls ex_s1))" by (simp add: ex_s1_defs)
  have h5: "\<not> isAbandoned 1000 (hd (calls ex_s1))" by (simp add: ex_s1_defs)
  have h6: "isAbandoned 400000 (hd (calls ex_s1))" by (simp add: ex_s1_defs)
  have h7: "findById (calls ex_s1) ''c2'' = None" by (simp add: ex_s1_defs)
  have h8: "call_id (hd (calls ex_s1)) = ''c1''" by (simp add: ex_s1_defs)
  note t = initiate_existing_session [OF h1 h2 h3 h4, of 1000 "Some Audio" 400000 400001
             "''c2''" "''u2''" 400000]
  from t h5 have a: "initiate ''B'' ''R'' (Some Audio) 1000 400000 400001 ''c2'' ''u2'' ex_s1
       = (Inr (ExistingCall (hd (calls ex_s1))), ex_s1)" by blast
  from t h6 h7 obtain gc s' old where
    o: "initiate ''B'' ''R'' (Some Audio) 400000 400000 400001 ''c2'' ''u2'' ex_s1
          = (Inr (CreatedCall gc), s')"
       "call_id gc = ''c2''" "callRoomId gc = ''group-call-'' @ ''u2''"
       "status gc = Ringing" "activeParticipants gc = [''B'']"
       "findById (calls s') ''c2'' = Some gc"
       "findById (calls s') (call_id (hd (calls ex_s1))) = Some old"
       "status old = Ended" "endedAt old = Some 400000"
    by blast
  from o(3) have o3: "callRoomId gc = ''group-call-u2''" by simp
  from o(7) h8 have o7: "findById (calls s') ''c1'' = Some old" by simp
  from o(1,2,4,5,6,8,9) o3 o7
  have b: "\<exists>gc s'. initiate ''B'' ''R'' (Some Audio) 400000 400000 400001 ''c2'' ''u2'' ex_s1
                  = (Inr (CreatedCall gc), s')
          \<and> call_id gc = ''c2''
          \<and> callRoomId gc = ''group-call-u2''
          \<and> status gc = Ringing
          \<and> activeParticipants gc = [''B'']
          \<and> findById (calls s') ''c2'' = Some gc
          \<and> (\<exists>old. findById (calls s') ''c1'' = Some old
                 \<and> status old = Ended \<and> endedAt old = Some 400000)"
    by blast
  from h1 h2 h3 h4 h5 h6 h7 a b show ?thesis by blast
qed

text \<open>
  C8. The force-end transition sets the status to ended, \<open>endedAt\<close> to now and the
  duration to the whole seconds since \<open>startedAt\<close>, turns \<open>invited\<close> into \<open>missed\<close> and
  gives every \<open>joined\<close> participant without a \<open>leftAt\<close> the value of \<open>endedAt\<close>. When
  \<open>initiate\<close> applies it to an abandoned session, and when the fired timer applies it,
  the ended session is stored and the session has no timer afterwards.
\<close>

theorem force_end_transition:
  "(rid \<noteq> [] \<and> roomById (rooms s) rid = Some rm \<and> user \<in> set (room.participants rm)
      \<and> findLive (calls s) rid = Some existingCall \<and> isAbandoned now existingCall
      \<and> findById (calls s) newId = None
      \<and> initiate user rid ct now tEnd tNew newId uuid s = (r, s') \<longrightarrow>
        findById (calls s') (call_id existingCall) = Some (end_transition tEnd existingCall)
        \<and> timers s' (call_id existingCall) = None)
   \<and> (timers s cid \<noteq> None \<and> findById (calls s) cid = Some c0
      \<and> length (activeParticipants c0) \<le> 1 \<and> status c0 \<noteq> Ended \<longrightarrow>
        findById (calls (fire_timer cid tFire s)) cid = Some (end_transition tFire c0)
        \<and> timers (fire_timer cid tFire s) cid = None)
   \<and> status (end_transition t c) = Ended
   \<and> endedAt (end_transition t c) = Some t
   \<and> duration (end_transition t c) = Some ((t - startedAt c) div 1000)
   \<and> participants (end_transition t c) =
       map (\<lambda>p. if participant.status p = Invited then p\<lparr>participant.status := Missed\<rparr>
                else if participant.status p = Joined \<and> leftAt p = None then p\<lparr>leftAt := Some t\<rparr>
                else p)
           (participants c)"
proof -
  have a: "findById (calls s') (call_id existingCall) = Some (end_transition tEnd existingCall)
        \<and> timers s' (call_id existingCall) = None"
    if "rid \<noteq> []" "roomById (rooms s) rid = Some rm" "user \<in> set (room.participants rm)"
       "findLive (calls s) rid = Some existingCall" "isAbandoned now existingCall"
       "findById (calls s) newId = None"
       "initiate user rid ct now tEnd tNew newId uuid s = (r, s')"
    using initiate_abandoned [OF that(1-6), of ct tEnd tNew uuid] that(7) by auto
  have b: "findById (calls (fire_timer cid tFire s)) cid = Some (end_transition tFire c0)
        \<and> timers (fire_timer cid tFire s) cid = None"
    if "timers s cid \<noteq> None" "findById (calls s) cid = Some c0"
       "length (activeParticipants c0) \<le> 1" "status c0 \<noteq> Ended"
  proof -
    from that(1) obtain tm where tm: "timers s cid = Some tm" by blast
    have "call_id (end_transition tFire c0) = cid"
      using findById_call_id [OF that(2)] by (simp add: call_id_end_transition)
    then have "findById (save (end_transition tFire c0) (calls s)) cid = Some (end_transition tFire c0)"
      using findById_save_same [of "end_transition tFire c0" "calls s"] by simp
    with fire_timer_ends(1) [OF tm that(2-4), of tFire] show ?thesis
      by (simp add: timers_fire_timer)
  qed
  from a b end_transition_fields [of t c] show ?thesis by blast
qed


theorem force_end_transition_witness:
  "''R'' \<noteq> []
   \<and> roomById (rooms ex_t1) ''R'' = Some ex_room
   \<and> ''B'' \<in> set (room.participants ex_room)
   \<and> findLive (calls ex_t1) ''R'' = Some (hd (calls ex_t1))
   \<and> isAbandoned 400000 (hd (calls ex_t1))
   \<and> findById (calls ex_t1) ''c2'' = None
   \<and> timers ex_t1 ''c1'' = Some \<lparr>handle = 0, delay_ms = 30000\<rparr>
   \<and> findById (calls ex_t1) ''c1'' = Some (hd (calls ex_t1))
   \<and> length (activeParticipants (hd (calls ex_t1))) \<le> 1
   \<and> status (hd (calls ex_t1)) = Ringing
   \<and> findById (calls (snd (initiate ''B'' ''R'' None 400000 400000 400001 ''c2'' ''u2'' ex_t1))) ''c1''
       = Some (end_transition 400000 (hd (calls ex_t1)))
   \<and> timers (snd (initiate ''B'' ''R'' None 400000 400000 400001 ''c2'' ''u2'' ex_t1)) ''c1'' = None
   \<and> findById (calls (fire_timer ''c1'' 31000 ex_t1)) ''c1''
       = Some (end_transition 31000 (hd (calls ex_t1)))
   \<and> timers (fire_timer ''c1'' 31000 ex_t1) ''c1'' = None
   \<and> duration (end_transition 31000 (hd (calls ex_t1))) = Some 31
   \<and> map participant.status (participants (end_transition 31000 (hd (calls ex_t1))))
       = [Joined, Missed, Left]
   \<and> map leftAt (participants (end_transition 31000 (hd (calls ex_t1))))
       = [Some 31000, None, Some 1000]"
proof -
  let ?s' = "snd (initiate ''B'' ''R'' None 400000 400000 400001 ''c2'' ''u2'' ex_t1)"
  have h1: "''R'' \<noteq> []" by simp
  have h2: "roomById (rooms ex_t1) ''R'' = Some ex_room" by (simp add: ex_t1_defs)
  have h3: "''B'' \<in> set (room.participants ex_room)" by (simp add: ex_room_def)
  have h4: "findLive (calls ex_t1) ''R'' = Some (hd (calls ex_t1))" by (simp add: ex_t1_defs)
  have h5: "isAbandoned 400000 (hd (calls ex_t1))" by (simp add: ex_t1_defs)
  have h6: "findById (calls ex_t1) ''c2'' = None" by (simp add: ex_t1_defs)
  have h7: "timers ex_t1 ''c1'' = Some \<lparr>handle = 0, delay_ms = 30000\<rparr>" by (simp add: ex_t1_defs)
  have h8: "findById (calls ex_t1) ''c1'' = Some (hd (calls ex_t1))" by (simp add: ex_t1_defs)
  have h9: "length (activeParticipants (hd (calls ex_t1))) \<le> 1" by (simp add: ex_t1_defs)
  have h10: "status (hd (calls ex_t1)) = Ringing" by (simp add: ex_t1_defs)
  have h11: "call_id (hd (calls ex_t1)) = ''c1''" "startedAt (hd (calls ex_t1)) = 0"
    "map participant.status (participants (hd (calls ex_t1))) = [Joined, Invited, Left]"
    "map leftAt (participants (hd (calls ex_t1))) = [None, None, Some 1000]"
    by (simp_all add: ex_t1_defs)
  have h12: "initiate ''B'' ''R'' None 400000 400000 400001 ''c2'' ''u2'' ex_t1
               = (fst (initiate ''B'' ''R'' None 400000 400000 400001 ''c2'' ''u2'' ex_t1), ?s')"
    by simp
  note t = force_end_transition [of "''R''" ex_t1 ex_room "''B''" "hd (calls ex_t1)" 400000
     "''c2''" None 400000 400001 "''u2''"
     "fst (initiate ''B'' ''R'' None 400000 400000 400001 ''c2'' ''u2'' ex_t1)" ?s'
     "''c1''" "hd (calls ex_t1)" 31000 31000 "hd (calls ex_t1)"]
  from t h1 h2 h3 h4 h5 h6 h12 h11(1)
  have a: "findById (calls ?s') ''c1'' = Some (end_transition 400000 (hd (calls ex_t1)))"
          "timers ?s' ''c1'' = None"
    by simp_all
  from t h7 h8 h9 h10
  have b: "findById (calls (fire_timer ''c1'' 31000 ex_t1)) ''c1''
       = Some (end_transition 31000 (hd (calls ex_t1)))"
     "timers (fire_timer ''c1'' 31000 ex_t1) ''c1'' = None"
    by simp_all
  from t h11 have c: "duration (end_transition 31000 (hd (calls ex_t1))) = Some 31" by simp
  have d: "map participant.status (participants (end_transition 31000 (hd (calls ex_t1))))
       = [Joined, Missed, Left]"
     "map leftAt (participants (end_transition 31000 (hd (calls ex_t1))))
       = [Some 31000, None, Some 1000]"
    by (simp_all add: ex_t1_defs)
  from h1 h2 h3 h4 h5 h6 h7 h8 h9 h10 a b c d show ?thesis by blast
qed

section \<open>Session status and the number of active participants\<close>

lemmas ex_s2_defs = ex_s2_def ex_s1_def eval_defs

lemma call_id_join_doc: "call_id (join_doc user now gc) = call_id gc"
  by (simp add: join_doc_def Let_def)

lemma join_success:
  assumes "findById (calls s) cid = Some c0" and "join user cid now s = (Inr g, sj)"
  shows "g = join_doc user now c0" and "findById (calls sj) cid = Some g"
    and "find (\<lambda>p. userId p = user) (participants c0) \<noteq> None"
proof -
  from assms show g: "g = join_doc user now c0"
    by (auto simp: join_def Let_def split: option.splits)
  from assms show "find (\<lambda>p. userId p = user) (participants c0) \<noteq> None"
    by (auto simp: join_def Let_def split: option.splits)
  have "call_id g = cid"
    using g findById_call_id [OF assms(1)] by (simp add: call_id_join_doc)
  moreover from assms g have "calls sj = save g (calls s)"
    by (auto simp: join_def Let_def clearTimer_def split: option.splits if_splits)
  ultimately show "findById (calls sj) cid = Some g"
    using findById_save_same [of g "calls s"] by simp
qed

lemma join_doc_status:
  "status (join_doc user now gc) =
     (if status gc = Ringing \<and> 2 \<le> length (activeParticipants (join_doc user now gc))
      then Active else status gc)"
  by (simp add: join_doc_def Let_def)

lemma join_doc_active:
  "activeParticipants (join_doc user now gc) =
     (if user \<in> set (activeParticipants gc) then activeParticipants gc
      else activeParticipants gc @ [user])"
  by (simp add: join_doc_def Let_def)

lemma leave_stored:
  assumes "findById (calls s) cid = Some c0" and "leave throws user cid tUpd tEnd s = (Inr b, sl)"
  shows "findById (calls sl) cid =
           Some (if filter (\<lambda>u. u \<noteq> user) (activeParticipants c0) = []
                 then end_transition tEnd (leave_update user tUpd c0)
                 else leave_update user tUpd c0)"
proof -
  let ?u = "leave_update user tUpd c0"
  let ?s1 = "s\<lparr>calls := save ?u (calls s)\<rparr>"
  have cid: "call_id ?u = cid"
    using findById_call_id [OF assms(1)] by (simp add: call_id_leave_update)
  have nt: "\<not> (throws 0 \<and> throws 1 \<and> throws 2)"
    using assms by (rule leave_Inr_not_all_throw)
  have "leave_finish user tEnd ?u ?s1 = (Inr b, sl)"
    using leave_success [OF assms(1) nt, of user tUpd tEnd] assms(2) by simp
  then have cs: "calls sl =
     (if activeParticipants ?u = [] then save (end_transition tEnd ?u) (calls ?s1) else calls ?s1)"
    using leave_finish_calls [of user tEnd ?u ?s1] by simp
  have ap: "activeParticipants ?u = filter (\<lambda>u. u \<noteq> user) (activeParticipants c0)"
    by (simp add: leave_update_def)
  show ?thesis
  proof (cases "filter (\<lambda>u. u \<noteq> user) (activeParticipants c0) = []")
    case True
    have "call_id (end_transition tEnd ?u) = cid" by (simp add: call_id_end_transition cid)
    then have "findById (save (end_transition tEnd ?u) (calls ?s1)) cid = Some (end_transition tEnd ?u)"
      using findById_save_same [of "end_transition tEnd ?u" "calls ?s1"] by simp
    with cs ap True show ?thesis by simp
  next
    case False
    have "findById (save ?u (calls s)) cid = Some ?u"
      using findById_save_same [of ?u "calls s"] cid by simp
    with cs ap False show ?thesis by simp
  qed
qed

lemma leave_update_fields:
  "status (leave_update user tUpd gc) = status gc"
  "activeParticipants (leave_update user tUpd gc) = filter (\<lambda>u. u \<noteq> user) (activeParticipants gc)"
  by (simp_all add: leave_update_def)

text \<open>
  C1, as the code has it. A successful \<open>join\<close> adds the caller to the active
  participants unless already there, and changes the status only by making a ringing
  session active when it then has two or more active participants. A successful \<open>leave\<close>
  removes the caller from the active participants, and changes the status only by ending
  the session when no active participant remains. So, after either, on a session that was
  not ended and that, if ringing, had at most one active participant: a session with two
  or more active participants is active, a ringing session has at most one active
  participant, and an active session has at least one, not necessarily two: an active
  session stays active when a \<open>leave\<close> takes it down to one active participant.
\<close>

theorem join_leave_status_invariant:
  assumes "findById (calls s) cid = Some c0"
  shows "(join user cid now s = (Inr g, sj) \<longrightarrow>
            (\<exists>c. findById (calls sj) cid = Some c
               \<and> activeParticipants c =
                   (if user \<in> set (activeParticipants c0) then activeParticipants c0
                    else activeParticipants c0 @ [user])
               \<and> status c =
                   (if status c0 = Ringing \<and> 2 \<le> length (activeParticipants c)
                    then Active else status c0)
               \<and> (status c = Ringing \<longrightarrow> length (activeParticipants c) \<le> 1)
               \<and> (status c = Active \<longrightarrow> 1 \<le> length (activeParticipants c))
               \<and> (status c0 \<noteq> Ended \<and> 2 \<le> length (activeParticipants c) \<longrightarrow>
                    status c = Active)))
       \<and> (leave throws user cid tUpd tEnd s = (Inr callEnded, sl) \<longrightarrow>
            (\<exists>c. findById (calls sl) cid = Some c
               \<and> activeParticipants c = filter (\<lambda>u. u \<noteq> user) (activeParticipants c0)
               \<and> status c = (if activeParticipants c = [] then Ended else status c0)
               \<and> (status c = Active \<longrightarrow> 1 \<le> length (activeParticipants c))
               \<and> ((status c0 = Ringing \<longrightarrow> length (activeParticipants c0) \<le> 1) \<longrightarrow>
                    (status c = Ringing \<longrightarrow> length (activeParticipants c) \<le> 1)
                    \<and> (status c0 \<noteq> Ended \<and> 2 \<le> length (activeParticipants c) \<longrightarrow>
                         status c = Active))))"
proof -
  have j: "\<exists>c. findById (calls sj) cid = Some c
               \<and> activeParticipants c =
                   (if user \<in> set (activeParticipants c0) then activeParticipants c0
                    else activeParticipants c0 @ [user])
               \<and> status c =
                   (if status c0 = Ringing \<and> 2 \<le> length (activeParticipants c)
                    then Active else status c0)
               \<and> (status c = Ringing \<longrightarrow> length (activeParticipants c) \<le> 1)
               \<and> (status c = Active \<longrightarrow> 1 \<le> length (activeParticipants c))
               \<and> (status c0 \<noteq> Ended \<and> 2 \<le> length (activeParticipants c) \<longrightarrow>
                    status c = Active)"
    if "join user cid now s = (Inr g, sj)"
  proof -
    note js = join_success [OF assms that]
    have ap: "activeParticipants g =
                   (if user \<in> set (activeParticipants c0) then activeParticipants c0
                    else activeParticipants c0 @ [user])"
      unfolding js(1) by (rule join_doc_active)
    have st: "status g =
                   (if status c0 = Ringing \<and> 2 \<le> length (activeParticipants g)
                    then Active else status c0)"
      unfolding js(1) by (rule join_doc_status)
    have a: "status g = Ringing \<longrightarrow> length (activeParticipants g) \<le> 1"
      using st by (auto split: if_splits)
    have b: "1 \<le> length (activeParticipants g)"
      unfolding ap by (cases "activeParticipants c0") simp_all
    have c: "status c0 \<noteq> Ended \<and> 2 \<le> length (activeParticipants g) \<longrightarrow> status g = Active"
      using st by (cases "status c0") (auto split: if_splits)
    from js(2) ap st a b c show ?thesis by blast
  qed
  have l: "\<exists>c. findById (calls sl) cid = Some c
               \<and> activeParticipants c = filter (\<lambda>u. u \<noteq> user) (activeParticipants c0)
               \<and> status c = (if activeParticipants c = [] then Ended else status c0)
               \<and> (status c = Active \<longrightarrow> 1 \<le> length (activeParticipants c))
               \<and> ((status c0 = Ringing \<longrightarrow> length (activeParticipants c0) \<le> 1) \<longrightarrow>
                    (status c = Ringing \<longrightarrow> length (activeParticipants c) \<le> 1)
                    \<and> (status c0 \<noteq> Ended \<and> 2 \<le> length (activeParticipants c) \<longrightarrow>
                         status c = Active))"
    if lv: "leave throws user cid tUpd tEnd s = (Inr callEnded, sl)"
  proof -
    let ?u = "leave_update user tUpd c0"
    let ?f = "filter (\<lambda>u. u \<noteq> user) (activeParticipants c0)"
    let ?c = "if ?f = [] then end_transition tEnd ?u else ?u"
    have stored: "findById (calls sl) cid = Some ?c" using assms lv by (rule leave_stored)
    have ap: "activeParticipants ?c = ?f"
      by (simp add: end_transition_fields leave_update_fields)
    have st: "status ?c = (if activeParticipants ?c = [] then Ended else status c0)"
      by (simp add: end_transition_fields leave_update_fields)
    have b: "status ?c = Active \<longrightarrow> 1 \<le> length (activeParticipants ?c)"
      using st by (cases "activeParticipants ?c") (auto split: if_splits)
    have len: "length ?f \<le> length (activeParticipants c0)" by (rule length_filter_le)
    have c: "(status ?c = Ringing \<longrightarrow> length (activeParticipants ?c) \<le> 1)
                    \<and> (status c0 \<noteq> Ended \<and> 2 \<le> length (activeParticipants ?c) \<longrightarrow>
                         status ?c = Active)"
      if inv: "status c0 = Ringing \<longrightarrow> length (activeParticipants c0) \<le> 1"
    proof (intro conjI impI; (elim conjE)?)
      assume r: "status ?c = Ringing"
      with st have "status c0 = Ringing" by (auto split: if_splits)
      with inv have "length (activeParticipants c0) \<le> 1" by simp
      with len have "length ?f \<le> 1" by (rule order_trans)
      with ap show "length (activeParticipants ?c) \<le> 1" by simp
    next
      assume ne: "status c0 \<noteq> Ended" and two: "2 \<le> length (activeParticipants ?c)"
      from two ap have two': "2 \<le> length ?f" by simp
      with len have "2 \<le> length (activeParticipants c0)" by linarith
      with inv have nr: "status c0 \<noteq> Ringing" by auto
      from two have "activeParticipants ?c \<noteq> []" by auto
      with st have "status ?c = status c0" by simp
      with ne nr show "status ?c = Active" by (cases "status c0") auto
    qed
    from stored ap st b c show ?thesis by blast
  qed
  from j l show ?thesis by blast
qed

theorem join_leave_status_invariant_witness:
  "findById (calls ex_s1) ''c1'' = Some (hd (calls ex_s1))
   \<and> join ''B'' ''c1'' 1000 ex_s1 = (Inr (hd (calls ex_s2)), ex_s2)
   \<and> leave no_throw ''B'' ''c1'' 1000 1000 ex_s1
       = (Inr False, snd (leave no_throw ''B'' ''c1'' 1000 1000 ex_s1))
   \<and> status (hd (calls ex_s1)) = Ringing
   \<and> activeParticipants (hd (calls ex_s1)) = [''A'']
   \<and> (\<exists>c. findById (calls ex_s2) ''c1'' = Some c
          \<and> activeParticipants c = [''A'', ''B''] \<and> status c = Active)
   \<and> (\<exists>c. findById (calls (snd (leave no_throw ''B'' ''c1'' 1000 1000 ex_s1))) ''c1'' = Some c
          \<and> activeParticipants c = [''A''] \<and> status c = Ringing)"
proof -
  let ?sl = "snd (leave no_throw ''B'' ''c1'' 1000 1000 ex_s1)"
  have h1: "findById (calls ex_s1) ''c1'' = Some (hd (calls ex_s1))"
    by (simp add: ex_s1_defs)
  have h2: "join ''B'' ''c1'' 1000 ex_s1 = (Inr (hd (calls ex_s2)), ex_s2)"
    by (simp add: prod_eq_iff ex_s2_def) (simp add: ex_s1_defs)
  have h3: "leave no_throw ''B'' ''c1'' 1000 1000 ex_s1 = (Inr False, ?sl)"
    by (simp add: prod_eq_iff) (simp add: ex_s1_defs)
  have h4: "status (hd (calls ex_s1)) = Ringing"
    "activeParticipants (hd (calls ex_s1)) = [''A'']"
    by (simp_all add: ex_s1_defs)
  note t = join_leave_status_invariant [OF h1, of "''B''" 1000 "hd (calls ex_s2)" ex_s2
              no_throw 1000 1000 False ?sl]
  from t h2 obtain c where c: "findById (calls ex_s2) ''c1'' = Some c"
      "activeParticipants c =
         (if ''B'' \<in> set (activeParticipants (hd (calls ex_s1)))
          then activeParticipants (hd (calls ex_s1))
          else activeParticipants (hd (calls ex_s1)) @ [''B''])"
      "status c =
         (if status (hd (calls ex_s1)) = Ringing \<and> 2 \<le> length (activeParticipants c)
          then Active else status (hd (calls ex_s1)))"
    by blast
  from c(2) h4 have c2: "activeParticipants c = [''A'', ''B'']" by simp
  with c(3) h4 have c3: "status c = Active" by simp
  from c(1) c2 c3 have a: "\<exists>c. findById (calls ex_s2) ''c1'' = Some c
          \<and> activeParticipants c = [''A'', ''B''] \<and> status c = Active"
    by blast
  from t h3 obtain d where d: "findById (calls ?sl) ''c1'' = Some d"
      "activeParticipants d = filter (\<lambda>u. u \<noteq> ''B'') (activeParticipants (hd (calls ex_s1)))"
      "status d = (if activeParticipants d = [] then Ended else status (hd (calls ex_s1)))"
    by blast
  from d(2) h4 have d2: "activeParticipants d = [''A'']" by simp
  with d(3) h4 have d3: "status d = Ringing" by simp
  from d(1) d2 d3 have b: "\<exists>c. findById (calls ?sl) ''c1'' = Some c
          \<and> activeParticipants c = [''A''] \<and> status c = Ringing"
    by blast
  from h1 h2 h3 h4 a b show ?thesis by blast
qed

text \<open>
  C1 as stated fails: \<open>A\<close> leaves the active call of \<open>A\<close> and \<open>B\<close>; the call is still
  active, with \<open>B\<close> as its only active participant. And once the timer has ended that
  call, \<open>A\<close> joins it again: the call has two active participants and is ended.
\<close>

theorem leave_to_one_participant_counterexample:
  "map status (calls ex_s2) = [Active]
   \<and> map activeParticipants (calls ex_s2) = [[''A'', ''B'']]
   \<and> leave no_throw ''A'' ''c1'' 2000 2000 ex_s2 = (Inr False, ex_s3)
   \<and> map status (calls ex_s3) = [Active]
   \<and> map activeParticipants (calls ex_s3) = [[''B'']]
   \<and> \<not> ((status (hd (calls ex_s3)) = Active)
          = (2 \<le> length (activeParticipants (hd (calls ex_s3)))))
   \<and> map status (calls ex_f1) = [Ended]
   \<and> map activeParticipants (calls ex_f1) = [[''B'']]
   \<and> fst (join ''A'' ''c1'' 40000 ex_f1) = Inr (hd (calls (snd (join ''A'' ''c1'' 40000 ex_f1))))
   \<and> map status (calls (snd (join ''A'' ''c1'' 40000 ex_f1))) = [Ended]
   \<and> map activeParticipants (calls (snd (join ''A'' ''c1'' 40000 ex_f1))) = [[''B'', ''A'']]"
proof -
  have a: "map status (calls ex_s2) = [Active]"
    "map activeParticipants (calls ex_s2) = [[''A'', ''B'']]"
    by (simp_all add: ex_s2_defs)
  have b: "leave no_throw ''A'' ''c1'' 2000 2000 ex_s2 = (Inr False, ex_s3)"
    by (simp add: prod_eq_iff ex_s3_def) (simp add: ex_s2_defs)
  have c: "map status (calls ex_s3) = [Active]"
    "map activeParticipants (calls ex_s3) = [[''B'']]"
    "\<not> ((status (hd (calls ex_s3)) = Active)
          = (2 \<le> length (activeParticipants (hd (calls ex_s3)))))"
    by (simp_all add: ex_s3_defs)
  have d: "map status (calls ex_f1) = [Ended]"
    "map activeParticipants (calls ex_f1) = [[''B'']]"
    "fst (join ''A'' ''c1'' 40000 ex_f1) = Inr (hd (calls (snd (join ''A'' ''c1'' 40000 ex_f1))))"
    "map status (calls (snd (join ''A'' ''c1'' 40000 ex_f1))) = [Ended]"
    "map activeParticipants (calls (snd (join ''A'' ''c1'' 40000 ex_f1))) = [[''B'', ''A'']]"
    by (simp_all add: ex_f1_def ex_s3_defs)
  from a b c d show ?thesis by blast
qed

section \<open>The statuses of the participants\<close>

lemmas ex_d1_defs = ex_d1_def ex_s1_def eval_defs

lemma update_first_all2:
  "list_all2 (\<lambda>p p'. p' = p \<or> (P p \<and> p' = f p)) xs (update_first P f xs)"
  by (induction xs) (simp_all add: list_all2_refl)

lemma update_first_hit:
  assumes "find P xs \<noteq> None" and "\<And>x. P x \<Longrightarrow> Q (f x)"
  shows "list_ex Q (update_first P f xs)"
  using assms by (induction xs) auto

lemma decline_success:
  assumes "findById (calls s) cid = Some c0" and "decline user cid s = (Inr u, sd)"
  shows "findById (calls sd) cid =
           Some (c0\<lparr>participants := update_first (\<lambda>p. userId p = user)
                        (\<lambda>p. p\<lparr>participant.status := Declined\<rparr>) (participants c0)\<rparr>)"
    and "find (\<lambda>p. userId p = user) (participants c0) \<noteq> None"
proof -
  let ?g = "c0\<lparr>participants := update_first (\<lambda>p. userId p = user)
                        (\<lambda>p. p\<lparr>participant.status := Declined\<rparr>) (participants c0)\<rparr>"
  from assms show "find (\<lambda>p. userId p = user) (participants c0) \<noteq> None"
    by (auto simp: decline_def Let_def split: option.splits)
  have "call_id ?g = cid" using findById_call_id [OF assms(1)] by simp
  moreover from assms have "calls sd = save ?g (calls s)"
    by (auto simp: decline_def Let_def split: option.splits)
  ultimately show "findById (calls sd) cid = Some ?g"
    using findById_save_same [of ?g "calls s"] by simp
qed

lemma fire_timer_stored:
  assumes "timers s cid \<noteq> None" and "findById (calls s) cid = Some c0"
  shows "findById (calls (fire_timer cid now s)) cid =
           Some (if length (activeParticipants c0) \<le> 1 \<and> status c0 \<noteq> Ended
                 then end_transition now c0 else c0)"
proof (cases "length (activeParticipants c0) \<le> 1 \<and> status c0 \<noteq> Ended")
  case True
  from assms(1) obtain tm where tm: "timers s cid = Some tm" by blast
  have "call_id (end_transition now c0) = cid"
    using findById_call_id [OF assms(2)] by (simp add: call_id_end_transition)
  then have "findById (save (end_transition now c0) (calls s)) cid = Some (end_transition now c0)"
    using findById_save_same [of "end_transition now c0" "calls s"] by simp
  with True fire_timer_ends(1) [OF tm assms(2), of now] show ?thesis by simp
next
  case False
  with fire_timer_keeps(1) [OF assms(2), of now] assms(2) show ?thesis by auto
qed

lemma join_doc_participants:
  "participants (join_doc user now gc) =
     update_first (\<lambda>p. userId p = user)
       (\<lambda>p. p\<lparr>participant.status := Joined, joinedAt := Some now\<rparr>) (participants gc)"
  by (simp add: join_doc_def Let_def)

text \<open>
  C3, as the code has it. Under \<open>join\<close>, \<open>decline\<close>, \<open>leave\<close> and the timer handler the
  participants keep their order and their user ids, and no participant is set to
  \<open>invited\<close>. \<open>join\<close> sets the caller's status to \<open>joined\<close>, \<open>decline\<close> to
  \<open>declined\<close> and \<open>leave\<close> to \<open>left\<close>, whatever it was before. The status of every
  other participant stays as it is, with one exception: when the call ends, which a
  \<open>leave\<close> does exactly when no active participant remains and the timer handler
  exactly when the session has at most one active participant and is not ended, every
  \<open>invited\<close> participant becomes \<open>missed\<close>.
\<close>

theorem participant_status_steps:
  assumes "findById (calls s) cid = Some c0"
  shows "(join user cid now s = (Inr g, sj) \<longrightarrow>
            (\<exists>c. findById (calls sj) cid = Some c
               \<and> list_all2 (\<lambda>p p'. userId p' = userId p
                              \<and> (participant.status p' = participant.status p
                                  \<or> (userId p = user \<and> participant.status p' = Joined)))
                    (participants c0) (participants c)
               \<and> list_ex (\<lambda>p'. userId p' = user \<and> participant.status p' = Joined)
                    (participants c)))
       \<and> (decline user cid s = (Inr u, sd) \<longrightarrow>
            (\<exists>c. findById (calls sd) cid = Some c
               \<and> list_all2 (\<lambda>p p'. userId p' = userId p
                              \<and> (participant.status p' = participant.status p
                                  \<or> (userId p = user \<and> participant.status p' = Declined)))
                    (participants c0) (participants c)
               \<and> list_ex (\<lambda>p'. userId p' = user \<and> participant.status p' = Declined)
                    (participants c)))
       \<and> (leave throws user cid tUpd tEnd s = (Inr callEnded, sl) \<longrightarrow>
            (\<exists>c. findById (calls sl) cid = Some c
               \<and> list_all2 (\<lambda>p p'. userId p' = userId p
                              \<and> participant.status p' =
                                  (if userId p = user then Left
                                   else if filter (\<lambda>u. u \<noteq> user) (activeParticipants c0) = []
                                           \<and> participant.status p = Invited then Missed
                                   else participant.status p))
                    (participants c0) (participants c)))
       \<and> (timers s cid \<noteq> None \<longrightarrow>
            (\<exists>c. findById (calls (fire_timer cid tFire s)) cid = Some c
               \<and> list_all2 (\<lambda>p p'. userId p' = userId p
                              \<and> participant.status p' =
                                  (if length (activeParticipants c0) \<le> 1 \<and> status c0 \<noteq> Ended
                                      \<and> participant.status p = Invited then Missed
                                   else participant.status p))
                    (participants c0) (participants c)))"
proof -
  have j: "\<exists>c. findById (calls sj) cid = Some c
               \<and> list_all2 (\<lambda>p p'. userId p' = userId p
                              \<and> (participant.status p' = participant.status p
                                  \<or> (userId p = user \<and> participant.status p' = Joined)))
                    (participants c0) (participants c)
               \<and> list_ex (\<lambda>p'. userId p' = user \<and> participant.status p' = Joined)
                    (participants c)"
    if "join user cid now s = (Inr g, sj)"
  proof -
    note js = join_success [OF assms that]
    have a: "list_all2 (\<lambda>p p'. userId p' = userId p
                              \<and> (participant.status p' = participant.status p
                                  \<or> (userId p = user \<and> participant.status p' = Joined)))
                    (participants c0) (participants g)"
      unfolding js(1) join_doc_participants
      by (rule list_all2_mono [OF update_first_all2]) auto
    have b: "list_ex (\<lambda>p'. userId p' = user \<and> participant.status p' = Joined) (participants g)"
      unfolding js(1) join_doc_participants
      by (rule update_first_hit [OF js(3)]) simp
    from js(2) a b show ?thesis by blast
  qed
  have d: "\<exists>c. findById (calls sd) cid = Some c
               \<and> list_all2 (\<lambda>p p'. userId p' = userId p
                              \<and> (participant.status p' = participant.status p
                                  \<or> (userId p = user \<and> participant.status p' = Declined)))
                    (participants c0) (participants c)
               \<and> list_ex (\<lambda>p'. userId p' = user \<and> participant.status p' = Declined)
                    (participants c)"
    if "decline user cid s = (Inr u, sd)"
  proof -
    let ?g = "c0\<lparr>participants := update_first (\<lambda>p. userId p = user)
                        (\<lambda>p. p\<lparr>participant.status := Declined\<rparr>) (participants c0)\<rparr>"
    note ds = decline_success [OF assms that]
    have a: "list_all2 (\<lambda>p p'. userId p' = userId p
                              \<and> (participant.status p' = participant.status p
                                  \<or> (userId p = user \<and> participant.status p' = Declined)))
                    (participants c0) (participants ?g)"
      by simp (rule list_all2_mono [OF update_first_all2], auto)
    have b: "list_ex (\<lambda>p'. userId p' = user \<and> participant.status p' = Declined) (participants ?g)"
      by simp (rule update_first_hit [OF ds(2)], simp)
    from ds(1) a b show ?thesis by blast
  qed
  have l: "\<exists>c. findById (calls sl) cid = Some c
               \<and> list_all2 (\<lambda>p p'. userId p' = userId p
                              \<and> participant.status p' =
                                  (if userId p = user then Left
                                   else if filter (\<lambda>u. u \<noteq> user) (activeParticipants c0) = []
                                           \<and> participant.status p = Invited then Missed
                                   else participant.status p))
                    (participants c0) (participants c)"
    if "leave throws user cid tUpd tEnd s = (Inr callEnded, sl)"
  proof -
    let ?c = "if filter (\<lambda>u. u \<noteq> user) (activeParticipants c0) = []
              then end_transition tEnd (leave_update user tUpd c0)
              else leave_update user tUpd c0"
    have st: "findById (calls sl) cid = Some ?c" using assms that by (rule leave_stored)
    have "list_all2 (\<lambda>p p'. userId p' = userId p
                              \<and> participant.status p' =
                                  (if userId p = user then Left
                                   else if filter (\<lambda>u. u \<noteq> user) (activeParticipants c0) = []
                                           \<and> participant.status p = Invited then Missed
                                   else participant.status p))
                    (participants c0) (participants ?c)"
      by (simp add: end_transition_def leave_update_def finalize_participant_def
                    list_all2_map2 list_all2_same)
    with st show ?thesis by blast
  qed
  have t: "\<exists>c. findById (calls (fire_timer cid tFire s)) cid = Some c
               \<and> list_all2 (\<lambda>p p'. userId p' = userId p
                              \<and> participant.status p' =
                                  (if length (activeParticipants c0) \<le> 1 \<and> status c0 \<noteq> Ended
                                      \<and> participant.status p = Invited then Missed
                                   else participant.status p))
                    (participants c0) (participants c)"
    if "timers s cid \<noteq> None"
  proof -
    let ?c = "if length (activeParticipants c0) \<le> 1 \<and> status c0 \<noteq> Ended
              then end_transition tFire c0 else c0"
    have st: "findById (calls (fire_timer cid tFire s)) cid = Some ?c"
      using that assms by (rule fire_timer_stored)
    have "list_all2 (\<lambda>p p'. userId p' = userId p
                              \<and> participant.status p' =
                                  (if length (activeParticipants c0) \<le> 1 \<and> status c0 \<noteq> Ended
                                      \<and> participant.status p = Invited then Missed
                                   else participant.status p))
                    (participants c0) (participants ?c)"
      by (simp add: end_transition_def finalize_participant_def list_all2_map2 list_all2_same)
    with st show ?thesis by blast
  qed
  from j d l t show ?thesis by blast
qed

theorem participant_status_steps_witness:
  "findById (calls ex_s3) ''c1'' = Some (hd (calls ex_s3))
   \<and> join ''C'' ''c1'' 3000 ex_s3
       = (Inr (join_doc ''C'' 3000 (hd (calls ex_s3))), snd (join ''C'' ''c1'' 3000 ex_s3))
   \<and> decline ''C'' ''c1'' ex_s3 = (Inr (), snd (decline ''C'' ''c1'' ex_s3))
   \<and> leave no_throw ''C'' ''c1'' 3000 3000 ex_s3
       = (Inr False, snd (leave no_throw ''C'' ''c1'' 3000 3000 ex_s3))
   \<and> timers ex_s3 ''c1'' \<noteq> None
   \<and> (\<exists>c. findById (calls (snd (join ''C'' ''c1'' 3000 ex_s3))) ''c1'' = Some c
          \<and> list_ex (\<lambda>p'. userId p' = ''C'' \<and> participant.status p' = Joined) (participants c))
   \<and> (\<exists>c. findById (calls (snd (decline ''C'' ''c1'' ex_s3))) ''c1'' = Some c
          \<and> list_ex (\<lambda>p'. userId p' = ''C'' \<and> participant.status p' = Declined) (participants c))
   \<and> (\<exists>c. findById (calls (snd (leave no_throw ''C'' ''c1'' 3000 3000 ex_s3))) ''c1'' = Some c
          \<and> list_all2 (\<lambda>p p'. userId p' = userId p
                          \<and> participant.status p' =
                              (if userId p = ''C'' then Left
                               else if filter (\<lambda>u. u \<noteq> ''C'') (activeParticipants (hd (calls ex_s3))) = []
                                       \<and> participant.status p = Invited then Missed
                               else participant.status p))
                (participants (hd (calls ex_s3))) (participants c))
   \<and> (\<exists>c. findById (calls (fire_timer ''c1'' 32000 ex_s3)) ''c1'' = Some c
          \<and> list_all2 (\<lambda>p p'. userId p' = userId p
                          \<and> participant.status p' =
                              (if length (activeParticipants (hd (calls ex_s3))) \<le> 1
                                  \<and> status (hd (calls ex_s3)) \<noteq> Ended
                                  \<and> participant.status p = Invited then Missed
                               else participant.status p))
                (participants (hd (calls ex_s3))) (participants c))
   \<and> map (map participant.status \<circ> participants) (calls ex_s3) = [[Left, Joined, Invited]]
   \<and> map (map participant.status \<circ> participants)
        (calls (snd (leave no_throw ''C'' ''c1'' 3000 3000 ex_s3))) = [[Left, Joined, Left]]
   \<and> map (map participant.status \<circ> participants)
        (calls (fire_timer ''c1'' 32000 ex_s3)) = [[Left, Joined, Missed]]"
proof -
  have h1: "findById (calls ex_s3) ''c1'' = Some (hd (calls ex_s3))"
    by (simp add: ex_s3_defs)
  have h2: "join ''C'' ''c1'' 3000 ex_s3
       = (Inr (join_doc ''C'' 3000 (hd (calls ex_s3))), snd (join ''C'' ''c1'' 3000 ex_s3))"
    by (simp add: prod_eq_iff) (simp add: ex_s3_defs)
  have h3: "decline ''C'' ''c1'' ex_s3 = (Inr (), snd (decline ''C'' ''c1'' ex_s3))"
    by (simp add: prod_eq_iff) (simp add: ex_s3_defs)
  have h4: "leave no_throw ''C'' ''c1'' 3000 3000 ex_s3
       = (Inr False, snd (leave no_throw ''C'' ''c1'' 3000 3000 ex_s3))"
    by (simp add: prod_eq_iff) (simp add: ex_s3_defs)
  have h5: "timers ex_s3 ''c1'' \<noteq> None"
    by (simp add: ex_s3_defs)
  have h6: "map (map participant.status \<circ> participants) (calls ex_s3) = [[Left, Joined, Invited]]"
    "map (map participant.status \<circ> participants)
        (calls (snd (leave no_throw ''C'' ''c1'' 3000 3000 ex_s3))) = [[Left, Joined, Left]]"
    "map (map participant.status \<circ> participants)
        (calls (fire_timer ''c1'' 32000 ex_s3)) = [[Left, Joined, Missed]]"
    by (simp_all add: ex_s3_defs)
  note t = participant_status_steps [OF h1, of "''C''" 3000 "join_doc ''C'' 3000 (hd (calls ex_s3))"
     "snd (join ''C'' ''c1'' 3000 ex_s3)" "()" "snd (decline ''C'' ''c1'' ex_s3)"
     no_throw 3000 3000 False "snd (leave no_throw ''C'' ''c1'' 3000 3000 ex_s3)" 32000]
  from t h2 have a: "\<exists>c. findById (calls (snd (join ''C'' ''c1'' 3000 ex_s3))) ''c1'' = Some c
          \<and> list_ex (\<lambda>p'. userId p' = ''C'' \<and> participant.status p' = Joined) (participants c)"
    by blast
  from t h3 have b: "\<exists>c. findById (calls (snd (decline ''C'' ''c1'' ex_s3))) ''c1'' = Some c
          \<and> list_ex (\<lambda>p'. userId p' = ''C'' \<and> participant.status p' = Declined) (participants c)"
    by blast
  from t h4 have c: "\<exists>c. findById (calls (snd (leave no_throw ''C'' ''c1'' 3000 3000 ex_s3))) ''c1'' = Some c
          \<and> list_all2 (\<lambda>p p'. userId p' = userId p
                          \<and> participant.status p' =
                              (if userId p = ''C'' then Left
                               else if filter (\<lambda>u. u \<noteq> ''C'') (activeParticipants (hd (calls ex_s3))) = []
                                       \<and> participant.status p = Invited then Missed
                               else participant.status p))
                (participants (hd (calls ex_s3))) (participants c)"
    by blast
  from t h5 have d: "\<exists>c. findById (calls (fire_timer ''c1'' 32000 ex_s3)) ''c1'' = Some c
          \<and> list_all2 (\<lambda>p p'. userId p' = userId p
                          \<and> participant.status p' =
                              (if length (activeParticipants (hd (calls ex_s3))) \<le> 1
                                  \<and> status (hd (calls ex_s3)) \<noteq> Ended
                                  \<and> participant.status p = Invited then Missed
                               else participant.status p))
                (participants (hd (calls ex_s3))) (participants c)"
    by blast
  from h1 h2 h3 h4 h5 h6 a b c d show ?thesis by blast
qed

text \<open>
  C3 as stated fails: \<open>B\<close> declines the call and then joins it; the status of \<open>B\<close> goes
  from \<open>declined\<close> to \<open>joined\<close>.
\<close>

theorem declined_participant_rejoins_counterexample:
  "map (map participant.status \<circ> participants) (calls ex_d1) = [[Joined, Declined, Invited]]
   \<and> join ''B'' ''c1'' 1000 ex_d1 = (Inr (hd (calls ex_d2)), ex_d2)
   \<and> map (map participant.status \<circ> participants) (calls ex_d2) = [[Joined, Joined, Invited]]"
proof -
  have a: "map (map participant.status \<circ> participants) (calls ex_d1) = [[Joined, Declined, Invited]]"
    by (simp add: ex_d1_defs)
  have b: "join ''B'' ''c1'' 1000 ex_d1 = (Inr (hd (calls ex_d2)), ex_d2)"
    by (simp add: prod_eq_iff ex_d2_def) (simp add: ex_d1_defs)
  have c: "map (map participant.status \<circ> participants) (calls ex_d2) = [[Joined, Joined, Invited]]"
    by (simp add: ex_d2_def ex_d1_defs)
  from a b c show ?thesis by blast
qed

section \<open>Ended sessions\<close>

text \<open>
  \<open>join\<close> and \<open>decline\<close> leave \<open>endedAt\<close> and \<open>duration\<close> alone and keep an ended session
  ended, and so does a \<open>leave\<close> after which an active participant remains. A \<open>leave\<close>
  after which none remains writes \<open>endedAt\<close> and \<open>duration\<close> whatever the status was.
\<close>

lemmas ex_s4_defs = ex_s4_def ex_s3_defs

lemma terminal_fields_kept:
  assumes "findById (calls s) cid = Some c0"
  shows "(join user cid now s = (Inr g, sj) \<longrightarrow>
            (\<exists>c. findById (calls sj) cid = Some c
               \<and> (status c0 = Ended \<longrightarrow> status c = Ended)
               \<and> endedAt c = endedAt c0 \<and> duration c = duration c0))
       \<and> (decline user cid s = (Inr u, sd) \<longrightarrow>
            (\<exists>c. findById (calls sd) cid = Some c
               \<and> status c = status c0 \<and> endedAt c = endedAt c0 \<and> duration c = duration c0))
       \<and> (leave throws user cid tUpd tEnd s = (Inr callEnded, sl) \<longrightarrow>
            (\<exists>c. findById (calls sl) cid = Some c
               \<and> (status c0 = Ended \<longrightarrow> status c = Ended)
               \<and> (if filter (\<lambda>u. u \<noteq> user) (activeParticipants c0) = []
                   then endedAt c = Some tEnd \<and> duration c = Some ((tEnd - startedAt c0) div 1000)
                   else endedAt c = endedAt c0 \<and> duration c = duration c0)))"
proof -
  have j: "\<exists>c. findById (calls sj) cid = Some c
               \<and> (status c0 = Ended \<longrightarrow> status c = Ended)
               \<and> endedAt c = endedAt c0 \<and> duration c = duration c0"
    if "join user cid now s = (Inr g, sj)"
  proof -
    note js = join_success [OF assms that]
    have "(status c0 = Ended \<longrightarrow> status g = Ended) \<and> endedAt g = endedAt c0 \<and> duration g = duration c0"
      unfolding js(1) by (simp add: join_doc_def Let_def)
    with js(2) show ?thesis by blast
  qed
  have d: "\<exists>c. findById (calls sd) cid = Some c
               \<and> status c = status c0 \<and> endedAt c = endedAt c0 \<and> duration c = duration c0"
    if "decline user cid s = (Inr u, sd)"
    using decline_success(1) [OF assms that] by simp
  have l: "\<exists>c. findById (calls sl) cid = Some c
               \<and> (status c0 = Ended \<longrightarrow> status c = Ended)
               \<and> (if filter (\<lambda>u. u \<noteq> user) (activeParticipants c0) = []
                   then endedAt c = Some tEnd \<and> duration c = Some ((tEnd - startedAt c0) div 1000)
                   else endedAt c = endedAt c0 \<and> duration c = duration c0)"
    if "leave throws user cid tUpd tEnd s = (Inr callEnded, sl)"
    using leave_stored [OF assms that] by (simp add: end_transition_def leave_update_def)
  from j d l show ?thesis by blast
qed

text \<open>
  C2. The call of the scenario ends at 60000 with a duration of 60 seconds when \<open>B\<close>
  leaves. \<open>B\<close>'s second leave request, at 120000, finds no active participant and runs
  the end of the call again: the ended session now has \<open>endedAt\<close> 120000 and a duration
  of 120 seconds.
\<close>

theorem leave_after_end_overwrites:
  "map status (calls ex_s4) = [Ended]
   \<and> map activeParticipants (calls ex_s4) = [[]]
   \<and> map endedAt (calls ex_s4) = [Some 60000]
   \<and> map duration (calls ex_s4) = [Some 60]
   \<and> leave no_throw ''B'' ''c1'' 120000 120000 ex_s4 = (Inr True, ex_s5)
   \<and> map status (calls ex_s5) = [Ended]
   \<and> map endedAt (calls ex_s5) = [Some 120000]
   \<and> map duration (calls ex_s5) = [Some 120]"
proof -
  have a: "map status (calls ex_s4) = [Ended]" "map activeParticipants (calls ex_s4) = [[]]"
    "map endedAt (calls ex_s4) = [Some 60000]" "map duration (calls ex_s4) = [Some 60]"
    by (simp_all add: ex_s4_defs)
  have b: "leave no_throw ''B'' ''c1'' 120000 120000 ex_s4 = (Inr True, ex_s5)"
    by (simp add: prod_eq_iff ex_s5_def) (simp add: ex_s4_defs)
  have c: "map status (calls ex_s5) = [Ended]" "map endedAt (calls ex_s5) = [Some 120000]"
    "map duration (calls ex_s5) = [Some 120]"
    by (simp_all add: ex_s5_def ex_s4_defs)
  from a b c show ?thesis by blast
qed

section \<open>What getPending returns\<close>

lemma getPending_set:
  "set (getPending user s) = {c \<in> set (calls s). pending_query user c}"
  by (simp add: getPending_def)

lemma getPending_sorted: "sorted (map (\<lambda>c. - createdAt c) (getPending user s))"
  by (simp add: getPending_def)

lemma getPending_matches:
  "c \<in> set (getPending user s) \<longleftrightarrow>
     c \<in> set (calls s) \<and> status c = Ringing
     \<and> (\<exists>p \<in> set (participants c). userId p = user)
     \<and> (\<exists>p \<in> set (participants c). participant.status p = Invited)"
  by (auto simp: getPending_set pending_query_def list_ex_iff)

text \<open>
  C9. After \<open>A\<close> has initiated the call, \<open>A\<close> is \<open>joined\<close> and \<open>B\<close> and \<open>C\<close> are
  \<open>invited\<close>; \<open>getPending\<close> for \<open>A\<close> returns the call, although \<open>A\<close>'s own status is
  not \<open>invited\<close>.
\<close>

theorem getPending_returns_joined_initiator:
  "map status (calls ex_s1) = [Ringing]
   \<and> map (map userId \<circ> participants) (calls ex_s1) = [[''A'', ''B'', ''C'']]
   \<and> map (map participant.status \<circ> participants) (calls ex_s1) = [[Joined, Invited, Invited]]
   \<and> getPending ''A'' ex_s1 = calls ex_s1"
  by (simp add: ex_s1_defs)

section \<open>leave by a user who is not a participant\<close>

lemmas ex_seed_defs = ex_seed_sys_def ex_seed_call_def eval_defs

lemma leave_update_non_participant:
  assumes "user \<notin> userId ` set (participants c0)" and "user \<notin> set (activeParticipants c0)"
  shows "leave_update user tUpd c0 = c0"
proof -
  have "map (\<lambda>p. if userId p = user then p\<lparr>participant.status := Left, leftAt := Some tUpd\<rparr> else p)
            (participants c0) = participants c0"
    using assms(1) by (intro map_idI) auto
  moreover have "filter (\<lambda>u. u \<noteq> user) (activeParticipants c0) = activeParticipants c0"
    using assms(2) by (auto simp: filter_id_conv)
  ultimately show ?thesis by (simp add: leave_update_def)
qed

text \<open>
  C10, as the code has it. \<open>leave\<close> checks no membership: for a session whose active
  participants are all participants and a caller who is not a participant, the result is
  never \<open>Forbidden\<close>; it is the internal error when the three writes fail and a success
  otherwise. On success the update changes nothing, the active participants are the same,
  and a session with an active participant is stored as it was; a session without any
  goes through the end of the call.
\<close>

theorem leave_non_participant:
  assumes "findById (calls s) cid = Some c0"
      and "user \<notin> userId ` set (participants c0)"
      and "set (activeParticipants c0) \<subseteq> userId ` set (participants c0)"
      and "leave throws user cid tUpd tEnd s = (r, s')"
  shows "r \<noteq> Inl Forbidden
       \<and> (r = Inl InternalError) = (throws 0 \<and> throws 1 \<and> throws 2)
       \<and> (\<not> (throws 0 \<and> throws 1 \<and> throws 2) \<longrightarrow>
            r = Inr (activeParticipants c0 = [] \<or> status c0 = Ended)
            \<and> (\<exists>c. findById (calls s') cid = Some c
                  \<and> activeParticipants c = activeParticipants c0
                  \<and> (activeParticipants c0 \<noteq> [] \<longrightarrow> c = c0)
                  \<and> (activeParticipants c0 = [] \<longrightarrow> c = end_transition tEnd c0)))"
proof (cases "throws 0 \<and> throws 1 \<and> throws 2")
  case True
  with leave_fail [OF assms(1) True, of user tUpd tEnd] assms(4) show ?thesis by simp
next
  case False
  have na: "user \<notin> set (activeParticipants c0)" using assms(2,3) by blast
  have u: "leave_update user tUpd c0 = c0"
    using assms(2) na by (rule leave_update_non_participant)
  have f: "filter (\<lambda>u. u \<noteq> user) (activeParticipants c0) = activeParticipants c0"
    using na by (auto simp: filter_id_conv)
  have eq: "leave_finish user tEnd c0 (s\<lparr>calls := save c0 (calls s)\<rparr>) = (r, s')"
    using leave_success [OF assms(1) False, of user tUpd tEnd] assms(4) u by simp
  then have r: "r = Inr (activeParticipants c0 = [] \<or> status c0 = Ended)"
    using leave_finish_result [of user tEnd c0 "s\<lparr>calls := save c0 (calls s)\<rparr>"] by simp
  then obtain b where rb: "r = Inr b" by blast
  have st: "findById (calls s') cid =
           Some (if activeParticipants c0 = [] then end_transition tEnd c0 else c0)"
    using leave_stored [OF assms(1), of throws user tUpd tEnd b s'] assms(4) rb u f by simp
  have "\<exists>c. findById (calls s') cid = Some c
                  \<and> activeParticipants c = activeParticipants c0
                  \<and> (activeParticipants c0 \<noteq> [] \<longrightarrow> c = c0)
                  \<and> (activeParticipants c0 = [] \<longrightarrow> c = end_transition tEnd c0)"
    using st by (simp add: end_transition_def)
  with r False show ?thesis by simp
qed

theorem leave_non_participant_witness:
  "findById (calls ex_s3) ''c1'' = Some (hd (calls ex_s3))
   \<and> ''Z'' \<notin> userId ` set (participants (hd (calls ex_s3)))
   \<and> set (activeParticipants (hd (calls ex_s3))) \<subseteq> userId ` set (participants (hd (calls ex_s3)))
   \<and> leave no_throw ''Z'' ''c1'' 3000 3000 ex_s3
       = (Inr False, snd (leave no_throw ''Z'' ''c1'' 3000 3000 ex_s3))
   \<and> \<not> (no_throw 0 \<and> no_throw 1 \<and> no_throw 2)
   \<and> activeParticipants (hd (calls ex_s3)) \<noteq> []
   \<and> findById (calls (snd (leave no_throw ''Z'' ''c1'' 3000 3000 ex_s3))) ''c1''
       = Some (hd (calls ex_s3))"
proof -
  let ?sl = "snd (leave no_throw ''Z'' ''c1'' 3000 3000 ex_s3)"
  have h1: "findById (calls ex_s3) ''c1'' = Some (hd (calls ex_s3))"
    by (simp add: ex_s3_defs)
  have h2: "''Z'' \<notin> userId ` set (participants (hd (calls ex_s3)))"
    by (simp add: ex_s3_defs)
  have h3: "set (activeParticipants (hd (calls ex_s3))) \<subseteq> userId ` set (participants (hd (calls ex_s3)))"
    by (simp add: ex_s3_defs)
  have h4: "leave no_throw ''Z'' ''c1'' 3000 3000 ex_s3 = (Inr False, ?sl)"
    by (simp add: prod_eq_iff) (simp add: ex_s3_defs)
  have h5: "\<not> (no_throw 0 \<and> no_throw 1 \<and> no_throw 2)" by (simp add: no_throw_def)
  have h6: "activeParticipants (hd (calls ex_s3)) \<noteq> []" by (simp add: ex_s3_defs)
  from leave_non_participant [OF h1 h2 h3 h4] h5 h6
  have "findById (calls ?sl) ''c1'' = Some (hd (calls ex_s3))" by auto
  with h1 h2 h3 h4 h5 h6 show ?thesis by blast
qed

text \<open>
  C10 as stated fails: \<open>Z\<close>, who is not a participant, sends a leave request for the
  seeded call, which has no active participant; the call is ended and its three
  participants go from \<open>invited\<close> to \<open>missed\<close>.
\<close>

theorem leave_non_participant_counterexample:
  "findById (calls ex_seed_sys) ''seed'' = Some ex_seed_call
   \<and> \<not> list_ex (\<lambda>p. userId p = ''Z'') (participants ex_seed_call)
   \<and> map participant.status (participants ex_seed_call) = [Invited, Invited, Invited]
   \<and> fst (leave no_throw ''Z'' ''seed'' 5 5 ex_seed_sys) = Inr True
   \<and> map (map participant.status \<circ> participants)
         (calls (snd (leave no_throw ''Z'' ''seed'' 5 5 ex_seed_sys))) = [[Missed, Missed, Missed]]
   \<and> map participants (calls (snd (leave no_throw ''Z'' ''seed'' 5 5 ex_seed_sys)))
       \<noteq> [participants ex_seed_call]"
  by (simp add: ex_seed_defs)

end
